theory Spec2Isabelle
  imports Complex_Main "HOL-Library.Product_Lexorder"
begin

section \<open>Shared values\<close>

text \<open>
  A Go \<open>error\<close> is modelled by its message. A \<open>time.Time\<close> is an instant, counted in
  nanoseconds since the Unix epoch; Go's zero \<open>time.Time\<close> is the first instant of year 1.
  A \<open>float64\<close> is modelled by an exact real number and Go's \<open>int\<close> by an unbounded integer:
  a confidence is only stored, compared and passed on, and the only arithmetic on an
  \<open>int\<close> is the increment of a use count. Where a \<open>float64\<close> is converted to an \<open>int\<close> the
  range of the \<open>int\<close> decides the result, and the conversion is written out for the 64
  bits that an \<open>int\<close> has on the platforms the server is built for.
\<close>

type_synonym error = string
type_synonym time = int

definition zeroTime :: time where
  "zeroTime = - 62135596800000000000"

subsection \<open>Decimal rendering of integers\<close>

fun natToDec :: "nat \<Rightarrow> string" where
  "natToDec n =
     (if n < 10 then [''0123456789'' ! n]
      else natToDec (n div 10) @ [''0123456789'' ! (n mod 10)])"

declare natToDec.simps [simp del]

text \<open>\<open>strconv.FormatInt(i, 10)\<close>, which is also what \<open>%d\<close> prints.\<close>

definition FormatInt :: "int \<Rightarrow> string" where
  "FormatInt i = (if i < 0 then CHR ''-'' # natToDec (nat (- i)) else natToDec (nat i))"

subsection \<open>The Learning value\<close>

record Learning =
  ID :: string
  Category :: string
  Content :: string
  Tags :: string
  Confidence :: real
  UseCount :: int
  CreatedAt :: time
  UpdatedAt :: time

text \<open>The Go zero value \<open>Learning{}\<close>.\<close>

definition zeroLearning :: Learning where
  "zeroLearning =
     \<lparr>ID = [], Category = [], Content = [], Tags = [], Confidence = 0, UseCount = 0,
      CreatedAt = zeroTime, UpdatedAt = zeroTime\<rparr>"

section \<open>JSON values and decoding into Go structs\<close>

text \<open>
  A JSON text that has been parsed. Numbers keep the distinction the Go decoder makes:
  \<open>JInt\<close> is a literal without fraction or exponent, \<open>JFloat\<close> any other number.
  A \<open>json.RawMessage\<close> is \<open>None\<close> when it holds no bytes (the member was absent) and
  \<open>Some v\<close> when it holds the text of the value \<open>v\<close>.
\<close>

datatype json =
    JNull
  | JBool bool
  | JInt int
  | JFloat real
  | JStr string
  | JArr "json list"
  | JObj "(string \<times> json) list"

type_synonym RawMessage = "json option"

text \<open>
  The formatting and parsing routines of the Go standard library that the program calls
  on floating-point numbers and instants are parameters of the model:
  \<open>fmt_f1\<close> is \<open>fmt.Sprintf("%.1f", x)\<close>, \<open>fmt_date\<close> is \<open>t.Format("2006-01-02")\<close>,
  \<open>fmt_rfc3339\<close> is \<open>t.Format(time.RFC3339)\<close> and \<open>parse_rfc3339\<close> is
  \<open>time.Parse(time.RFC3339, s)\<close>, with \<open>None\<close> for a parse error. So is the reading of a
  JSON text by \<open>encoding/json\<close>: \<open>json_parse\<close> gives the value a text denotes and
  \<open>None\<close> for a text that is not JSON. The last parameter is not a routine but a choice
  of the Go implementation: \<open>float_overflow\<close> is what the conversion \<open>int(x)\<close> yields for a
  \<open>float64\<close> whose whole part does not fit a 64-bit \<open>int\<close>, which the language leaves to
  the implementation.
\<close>

record golib =
  fmt_f1 :: "real \<Rightarrow> string"
  fmt_date :: "time \<Rightarrow> string"
  fmt_rfc3339 :: "time \<Rightarrow> string"
  parse_rfc3339 :: "string \<Rightarrow> time option"
  json_parse :: "string \<Rightarrow> json option"
  float_overflow :: "real \<Rightarrow> int"

text \<open>
  \<open>json.Unmarshal\<close> into a struct works by reflection over the struct's fields. The
  model does the same: a struct type is the list of its JSON member names with the kind
  of each field, and a struct value maps a member name to the field's value, an
  unmapped name standing for the Go zero value of the field.
\<close>

datatype kind = KString | KInt | KFloat | KAny | KRaw

datatype fval = VString string | VInt int | VFloat real | VJson json

type_synonym gostruct = "string \<rightharpoonup> fval"

datatype action = Keep | Put fval | Clear | Fail error

definition json_type_name :: "json \<Rightarrow> string" where
  "json_type_name v =
     (case v of JNull \<Rightarrow> ''null'' | JBool _ \<Rightarrow> ''bool'' | JInt _ \<Rightarrow> ''number''
      | JFloat _ \<Rightarrow> ''number'' | JStr _ \<Rightarrow> ''string'' | JArr _ \<Rightarrow> ''array''
      | JObj _ \<Rightarrow> ''object'')"

definition kind_name :: "kind \<Rightarrow> string" where
  "kind_name k =
     (case k of KString \<Rightarrow> ''string'' | KInt \<Rightarrow> ''int'' | KFloat \<Rightarrow> ''float64''
      | KAny \<Rightarrow> ''interface {}'' | KRaw \<Rightarrow> ''json.RawMessage'')"

definition type_error :: "json \<Rightarrow> string \<Rightarrow> string \<Rightarrow> error" where
  "type_error v f t =
     ''json: cannot unmarshal '' @ json_type_name v @ '' into Go struct field .'' @ f
       @ '' of type '' @ t"

text \<open>
  What the decoder does with one member value for a field of a given kind: a
  \<open>json.RawMessage\<close> takes any value verbatim, an \<open>any\<close> takes any value and becomes
  \<open>nil\<close> on \<open>null\<close>, and a string, int or float64 field ignores \<open>null\<close>, takes a value
  of its own type and reports a type error on everything else. A Go \<open>int\<close> has 64 bits.
\<close>

fun decode_value :: "string \<Rightarrow> kind \<Rightarrow> json \<Rightarrow> action" where
  "decode_value f KRaw v = Put (VJson v)"
| "decode_value f KAny JNull = Clear"
| "decode_value f KAny v = Put (VJson v)"
| "decode_value f k JNull = Keep"
| "decode_value f KString (JStr s) = Put (VString s)"
| "decode_value f KInt (JInt n) =
     (if - (2 ^ 63) \<le> n \<and> n < 2 ^ 63 then Put (VInt n)
      else Fail (type_error (JInt n) f ''int''))"
| "decode_value f KFloat (JInt n) = Put (VFloat (of_int n))"
| "decode_value f KFloat (JFloat r) = Put (VFloat r)"
| "decode_value f k v = Fail (type_error v f (kind_name k))"

text \<open>
  A member name selects the field with exactly that name, and otherwise the first field
  whose name equals it up to the case of ASCII letters.
\<close>

definition to_lower :: "char \<Rightarrow> char" where
  "to_lower c =
     (if 65 \<le> (of_char c :: nat) \<and> (of_char c :: nat) \<le> 90
      then char_of ((of_char c :: nat) + 32) else c)"

definition find_field :: "(string \<times> kind) list \<Rightarrow> string \<Rightarrow> (string \<times> kind) option" where
  "find_field flds key =
     (case List.find (\<lambda>fk. fst fk = key) flds of
        Some fk \<Rightarrow> Some fk
      | None \<Rightarrow> List.find (\<lambda>fk. map to_lower (fst fk) = map to_lower key) flds)"

text \<open>
  Members are decoded in the order of the text, a later duplicate overwriting an earlier
  one; a type error does not stop the decoding, and the first one is what
  \<open>json.Unmarshal\<close> returns at the end.
\<close>

fun decode_members ::
  "(string \<times> kind) list \<Rightarrow> (string \<times> json) list \<Rightarrow> error option \<times> gostruct
     \<Rightarrow> error option \<times> gostruct" where
  "decode_members flds [] acc = acc"
| "decode_members flds ((key, v) # rest) (err, p) =
     (case find_field flds key of
        None \<Rightarrow> decode_members flds rest (err, p)
      | Some (f, k) \<Rightarrow>
          (case decode_value f k v of
             Keep \<Rightarrow> decode_members flds rest (err, p)
           | Put x \<Rightarrow> decode_members flds rest (err, p(f \<mapsto> x))
           | Clear \<Rightarrow> decode_members flds rest (err, p(f := None))
           | Fail e \<Rightarrow>
               decode_members flds rest ((case err of None \<Rightarrow> Some e | Some e0 \<Rightarrow> Some e0), p)))"

text \<open>
  \<open>json.Unmarshal(raw, &p)\<close> for a struct \<open>p\<close>: no bytes is a syntax error, \<open>null\<close>
  leaves \<open>p\<close> as it is, an object is decoded member by member, and any other value is a
  type error that leaves \<open>p\<close> as it is.
\<close>

definition Unmarshal ::
  "(string \<times> kind) list \<Rightarrow> RawMessage \<Rightarrow> gostruct \<Rightarrow> error option \<times> gostruct" where
  "Unmarshal flds raw p =
     (case raw of
        None \<Rightarrow> (Some ''unexpected end of JSON input'', p)
      | Some JNull \<Rightarrow> (None, p)
      | Some (JObj members) \<Rightarrow> decode_members flds members (None, p)
      | Some v \<Rightarrow>
          (Some (''json: cannot unmarshal '' @ json_type_name v @ '' into Go value of type struct''),
           p))"

text \<open>Reading a field of a decoded struct, with the Go zero value when it was never set.\<close>

definition strF :: "gostruct \<Rightarrow> string \<Rightarrow> string" where
  "strF p f = (case p f of Some (VString s) \<Rightarrow> s | _ \<Rightarrow> [])"

definition intF :: "gostruct \<Rightarrow> string \<Rightarrow> int" where
  "intF p f = (case p f of Some (VInt n) \<Rightarrow> n | _ \<Rightarrow> 0)"

definition floatF :: "gostruct \<Rightarrow> string \<Rightarrow> real" where
  "floatF p f = (case p f of Some (VFloat r) \<Rightarrow> r | _ \<Rightarrow> 0)"

definition jsonF :: "gostruct \<Rightarrow> string \<Rightarrow> json option" where
  "jsonF p f = (case p f of Some (VJson v) \<Rightarrow> Some v | _ \<Rightarrow> None)"

section \<open>The storage contract\<close>

text \<open>
  The Go interface \<open>Backend\<close>: a record of the methods over the state \<open>'s\<close> of whatever
  store stands behind it. A method takes the state and returns the new one with its
  result; \<open>(nil, err)\<close> is \<open>Inl err\<close>, and a \<open>nil\<close> error is \<open>None\<close>. \<open>Stats\<close> returns
  the Go map as the list of its entries in the order a \<open>range\<close> loop visits them.
\<close>

record 's Backend =
  Add :: "string \<Rightarrow> string \<Rightarrow> string \<Rightarrow> real \<Rightarrow> 's \<Rightarrow> (error + Learning) \<times> 's"
  Search :: "string \<Rightarrow> string \<Rightarrow> int \<Rightarrow> 's \<Rightarrow> (error + Learning list) \<times> 's"
  List :: "string \<Rightarrow> int \<Rightarrow> 's \<Rightarrow> (error + Learning list) \<times> 's"
  Update :: "string \<Rightarrow> string \<Rightarrow> string \<Rightarrow> real \<Rightarrow> 's \<Rightarrow> error option \<times> 's"
  Delete :: "string \<Rightarrow> 's \<Rightarrow> error option \<times> 's"
  IncrementUseCount :: "string \<Rightarrow> 's \<Rightarrow> 's"
  Stats :: "'s \<Rightarrow> (error + (string \<times> int) list) \<times> 's"
  Close :: "'s \<Rightarrow> error option \<times> 's"

section \<open>Structured-store backend\<close>

subsection \<open>The embedded engine\<close>

text \<open>
  The backend talks to an SQLite engine through \<open>database/sql\<close>. The engine is not part of
  the program; what follows is the part of its behaviour the backend's statements rely on.
  The table \<open>learnings\<close> (\<open>tbl\<close>, \<open>None\<close> until it is created) is a list of rows in rowid
  order. The FTS5 extension is either missing from the engine or given by what it takes
  for a well-formed MATCH expression, which indexed entries an expression matches and how
  it ranks them. The virtual table \<open>learnings_fts\<close> (\<open>None\<close> until it is created) holds
  one entry per indexed row: the rowid and the content, tags and category indexed for it.
  Nothing but the triggers of the schema writes to it. Any statement can fail for a reason
  outside the program (a locked or unreadable file): \<open>faults\<close> is the schedule of these
  failures, one entry per statement received, \<open>True\<close> for a failure. \<open>issued\<close> records
  the statements received, oldest first.
\<close>

record row =
  col_id :: int
  col_category :: string
  col_content :: string
  col_tags :: string
  col_confidence :: real
  col_use_count :: int
  col_created_at :: time
  col_updated_at :: time

type_synonym doc = "int \<times> string \<times> string \<times> string"

record fts5_module =
  fts_valid :: "string \<Rightarrow> bool"
  fts_match :: "string \<Rightarrow> doc \<Rightarrow> bool"
  fts_rank :: "string \<Rightarrow> doc \<Rightarrow> real"

text \<open>
  The statements the backend sends. Where the Go code appends an optional clause to the
  SQL text, the statement carries an optional argument: \<open>Some c\<close> for
  \<open>AND category = ?\<close> bound to \<open>c\<close>. \<open>SelectLike\<close> carries the pattern of each
  \<open>(content LIKE ? OR tags LIKE ?)\<close> clause, and no pattern at all stands for \<open>1=1\<close>.
\<close>

datatype stmt =
    CreateLearnings
  | CreateFts
  | CreateTrigger string
  | InsertLearning string string string real time time
  | UpdateLearning string string real time string
  | DeleteLearning string
  | BumpUseCount string
  | SelectFts string "string option" int
  | SelectLike "string list" "string option" int
  | SelectAll "string option" int
  | SelectStats

record sqlite =
  closed :: bool
  faults :: "bool list"
  fts5 :: "fts5_module option"
  tbl :: "row list option"
  seq :: int
  learnings_fts :: "doc list option"
  triggers :: "string list"
  issued :: "stmt list"

text \<open>
  \<open>LIKE\<close>: \<open>%\<close> matches any run of characters, \<open>_\<close> any one character, and letters
  match up to the case of ASCII letters.
\<close>

fun like :: "string \<Rightarrow> string \<Rightarrow> bool" where
  "like [] s = (s = [])"
| "like (c # p) [] = (c = CHR ''%'' \<and> like p [])"
| "like (c # p) (x # s) =
     (if c = CHR ''%'' then like p (x # s) \<or> like (c # p) s
      else if c = CHR ''_'' then like p s
      else to_lower c = to_lower x \<and> like p s)"

text \<open>
  A text argument compared with the integer column \<open>id\<close> is converted to a number when
  it is a decimal integer; any other text equals no id.
\<close>

definition digit_val :: "char \<Rightarrow> nat option" where
  "digit_val c =
     (if 48 \<le> (of_char c :: nat) \<and> (of_char c :: nat) \<le> 57
      then Some ((of_char c :: nat) - 48) else None)"

fun dec_val :: "nat \<Rightarrow> string \<Rightarrow> nat option" where
  "dec_val acc [] = Some acc"
| "dec_val acc (c # cs) =
     (case digit_val c of None \<Rightarrow> None | Some d \<Rightarrow> dec_val (10 * acc + d) cs)"

definition text_to_int :: "string \<Rightarrow> int option" where
  "text_to_int s =
     (case s of
        [] \<Rightarrow> None
      | c # cs \<Rightarrow>
          if c = CHR ''-'' then (if cs = [] then None else map_option (\<lambda>n. - int n) (dec_val 0 cs))
          else if c = CHR ''+'' then (if cs = [] then None else map_option int (dec_val 0 cs))
          else map_option int (dec_val 0 (c # cs)))"

definition id_is :: "string \<Rightarrow> row \<Rightarrow> bool" where
  "id_is a r = (text_to_int a = Some (col_id r))"

definition category_is :: "string option \<Rightarrow> row \<Rightarrow> bool" where
  "category_is c r = (case c of None \<Rightarrow> True | Some x \<Rightarrow> col_category r = x)"

text \<open>\<open>LIMIT n\<close>; a negative \<open>n\<close> is no limit.\<close>

definition limit_rows :: "int \<Rightarrow> 'a list \<Rightarrow> 'a list" where
  "limit_rows n rs = (if n < 0 then rs else take (nat n) rs)"

definition count_by_category :: "row list \<Rightarrow> (string \<times> int) list" where
  "count_by_category rs =
     map (\<lambda>c. (c, int (length (filter (\<lambda>r. col_category r = c) rs))))
       (remdups (map col_category rs))"

text \<open>
  Every statement is first recorded and uses up one entry of the failure schedule. A
  closed handle and a scheduled failure return an error and change nothing else.
\<close>

definition receive :: "stmt \<Rightarrow> sqlite \<Rightarrow> sqlite" where
  "receive st d = d\<lparr>issued := issued d @ [st], faults := drop 1 (faults d)\<rparr>"

definition refused :: "sqlite \<Rightarrow> error option" where
  "refused d =
     (if closed d then Some ''sql: database is closed''
      else if take 1 (faults d) = [True] then Some ''database is locked''
      else None)"

record exec_result =
  LastInsertId :: int
  RowsAffected :: int

definition no_rows :: exec_result where
  "no_rows = \<lparr>LastInsertId = 0, RowsAffected = 0\<rparr>"

definition new_row :: "int \<Rightarrow> string \<Rightarrow> string \<Rightarrow> string \<Rightarrow> real \<Rightarrow> time \<Rightarrow> time \<Rightarrow> row" where
  "new_row i category content tags confidence created updated =
     \<lparr>col_id = i, col_category = category, col_content = content, col_tags = tags,
      col_confidence = confidence, col_use_count = 0, col_created_at = created,
      col_updated_at = updated\<rparr>"

text \<open>
  The triggers \<open>learnings_ai\<close>, \<open>learnings_au\<close> and \<open>learnings_ad\<close>, where they exist,
  change the index along with the table: an insertion adds the entry of the new row, an
  update replaces the entries of the rows it rewrites, a deletion removes the entries of
  the rows it removes. A statement on a table with a trigger whose index table is missing
  fails.
\<close>

definition doc_of :: "row \<Rightarrow> doc" where
  "doc_of r = (col_id r, col_content r, col_tags r, col_category r)"

definition without :: "row list \<Rightarrow> doc list \<Rightarrow> doc list" where
  "without rs docs = filter (\<lambda>f. fst f \<notin> set (map col_id rs)) docs"

definition fire :: "string \<Rightarrow> (doc list \<Rightarrow> doc list) \<Rightarrow> sqlite \<Rightarrow> error + doc list option" where
  "fire name change d =
     (if name \<in> set (triggers d)
      then (case learnings_fts d of
              None \<Rightarrow> Inl ''no such table: learnings_fts''
            | Some docs \<Rightarrow> Inr (Some (change docs)))
      else Inr (learnings_fts d))"

text \<open>
  \<open>db.Exec\<close>. \<open>AUTOINCREMENT\<close> gives a new row the successor of the largest rowid the
  table ever held.
\<close>

definition Exec :: "stmt \<Rightarrow> sqlite \<Rightarrow> (error + exec_result) \<times> sqlite" where
  "Exec st d =
     (let d1 = receive st d in
      case refused d of
        Some err \<Rightarrow> (Inl err, d1)
      | None \<Rightarrow>
          (case st of
             CreateLearnings \<Rightarrow>
               (Inr no_rows,
                d1\<lparr>tbl := Some (case tbl d of None \<Rightarrow> [] | Some rs \<Rightarrow> rs)\<rparr>)
           | CreateFts \<Rightarrow>
               (if learnings_fts d \<noteq> None then (Inr no_rows, d1)
                else case fts5 d of
                       None \<Rightarrow> (Inl ''no such module: fts5'', d1)
                     | Some _ \<Rightarrow> (Inr no_rows, d1\<lparr>learnings_fts := Some []\<rparr>))
           | CreateTrigger name \<Rightarrow>
               (Inr no_rows,
                d1\<lparr>triggers := (if name \<in> set (triggers d) then triggers d
                                 else triggers d @ [name])\<rparr>)
           | InsertLearning category content tags confidence created updated \<Rightarrow>
               (case tbl d of
                  None \<Rightarrow> (Inl ''no such table: learnings'', d1)
                | Some rs \<Rightarrow>
                    (let i = fold max (map col_id rs) (seq d) + 1;
                         r = new_row i category content tags confidence created updated
                     in case fire ''learnings_ai'' (\<lambda>docs. docs @ [doc_of r]) d of
                          Inl err \<Rightarrow> (Inl err, d1)
                        | Inr index \<Rightarrow>
                            (Inr \<lparr>LastInsertId = i, RowsAffected = 1\<rparr>,
                             d1\<lparr>tbl := Some (rs @ [r]), seq := i, learnings_fts := index\<rparr>)))
           | UpdateLearning content tags confidence updated a \<Rightarrow>
               (case tbl d of
                  None \<Rightarrow> (Inl ''no such table: learnings'', d1)
                | Some rs \<Rightarrow>
                    (let rs1 = map (\<lambda>r. if id_is a r
                                         then r\<lparr>col_content := content, col_tags := tags,
                                                col_confidence := confidence,
                                                col_updated_at := updated\<rparr>
                                         else r) rs;
                         hit = filter (id_is a) rs1
                     in case fire ''learnings_au'' (\<lambda>docs. without hit docs @ map doc_of hit) d of
                          Inl err \<Rightarrow> (Inl err, d1)
                        | Inr index \<Rightarrow>
                            (Inr \<lparr>LastInsertId = 0, RowsAffected = int (length hit)\<rparr>,
                             d1\<lparr>tbl := Some rs1, learnings_fts := index\<rparr>)))
           | DeleteLearning a \<Rightarrow>
               (case tbl d of
                  None \<Rightarrow> (Inl ''no such table: learnings'', d1)
                | Some rs \<Rightarrow>
                    (let hit = filter (id_is a) rs
                     in case fire ''learnings_ad'' (without hit) d of
                          Inl err \<Rightarrow> (Inl err, d1)
                        | Inr index \<Rightarrow>
                            (Inr \<lparr>LastInsertId = 0, RowsAffected = int (length hit)\<rparr>,
                             d1\<lparr>tbl := Some (filter (\<lambda>r. \<not> id_is a r) rs),
                                learnings_fts := index\<rparr>)))
           | BumpUseCount a \<Rightarrow>
               (case tbl d of
                  None \<Rightarrow> (Inl ''no such table: learnings'', d1)
                | Some rs \<Rightarrow>
                    (let rs1 = map (\<lambda>r. if id_is a r
                                         then r\<lparr>col_use_count := col_use_count r + 1\<rparr>
                                         else r) rs;
                         hit = filter (id_is a) rs1
                     in case fire ''learnings_au'' (\<lambda>docs. without hit docs @ map doc_of hit) d of
                          Inl err \<Rightarrow> (Inl err, d1)
                        | Inr index \<Rightarrow>
                            (Inr \<lparr>LastInsertId = 0, RowsAffected = int (length hit)\<rparr>,
                             d1\<lparr>tbl := Some rs1, learnings_fts := index\<rparr>)))
           | _ \<Rightarrow> (Inl ''not a statement to execute'', d1)))"

text \<open>
  \<open>db.Query\<close> for the three selections of learnings. It returns an error when the
  statement cannot be prepared, and otherwise a row set: the rows that \<open>rows.Next()\<close>
  then delivers, with the error that ended the delivery early if there was one. A MATCH
  expression is an argument of the statement, so that a malformed one is found out only
  when the first row is asked for. The full-text selection joins each matching entry of
  the index with the row of its rowid. Rows that tie in the \<open>ORDER BY\<close> come out in table
  order.
\<close>

record rowset =
  fetched :: "row list"
  rows_err :: "error option"

definition delivered :: "row list \<Rightarrow> rowset" where
  "delivered rs = \<lparr>fetched = rs, rows_err = None\<rparr>"

definition Query :: "stmt \<Rightarrow> sqlite \<Rightarrow> (error + rowset) \<times> sqlite" where
  "Query st d =
     (let d1 = receive st d in
      case refused d of
        Some err \<Rightarrow> (Inl err, d1)
      | None \<Rightarrow>
          (case tbl d of
             None \<Rightarrow> (Inl ''no such table: learnings'', d1)
           | Some rs \<Rightarrow>
               (case st of
                  SelectFts expr c n \<Rightarrow>
                    (case learnings_fts d of
                       None \<Rightarrow> (Inl ''no such table: learnings_fts'', d1)
                     | Some docs \<Rightarrow>
                         (case fts5 d of
                            None \<Rightarrow> (Inl ''no such module: fts5'', d1)
                          | Some m \<Rightarrow>
                              if \<not> fts_valid m expr
                              then (Inr \<lparr>fetched = [], rows_err = Some ''fts5: syntax error''\<rparr>,
                                    d1)
                              else (Inr (delivered
                                           (limit_rows n
                                              (map snd
                                                 (sort_key
                                                    (\<lambda>fr. (fts_rank m expr (fst fr),
                                                            - col_confidence (snd fr)))
                                                    (filter
                                                       (\<lambda>fr. col_id (snd fr) = fst (fst fr)
                                                              \<and> fts_match m expr (fst fr)
                                                              \<and> category_is c (snd fr))
                                                       (List.product docs rs)))))),
                                    d1)))
                | SelectLike pats c n \<Rightarrow>
                    (Inr (delivered
                            (limit_rows n
                               (sort_key (\<lambda>r. (- col_confidence r, - col_use_count r))
                                  (filter (\<lambda>r. (pats = [] \<or>
                                                  list_ex (\<lambda>pat. like pat (col_content r)
                                                                   \<or> like pat (col_tags r)) pats)
                                                \<and> category_is c r) rs)))),
                     d1)
                | SelectAll c n \<Rightarrow>
                    (Inr (delivered
                            (limit_rows n
                               (sort_key (\<lambda>r. - col_updated_at r) (filter (category_is c) rs)))),
                     d1)
                | _ \<Rightarrow> (Inl ''not a selection of learnings'', d1))))"

definition QueryStats :: "sqlite \<Rightarrow> (error + (string \<times> int) list) \<times> sqlite" where
  "QueryStats d =
     (let d1 = receive SelectStats d in
      case refused d of
        Some err \<Rightarrow> (Inl err, d1)
      | None \<Rightarrow>
          (case tbl d of
             None \<Rightarrow> (Inl ''no such table: learnings'', d1)
           | Some rs \<Rightarrow> (Inr (count_by_category rs), d1)))"

subsection \<open>The backend\<close>

text \<open>
  The Go struct \<open>SQLiteBackend\<close> has one field, the database handle; the state of the
  backend is the state of the engine behind that handle. Log output is not modelled.
\<close>

definition ftsStatements :: "stmt list" where
  "ftsStatements =
     [CreateFts, CreateTrigger ''learnings_ai'', CreateTrigger ''learnings_au'',
      CreateTrigger ''learnings_ad'']"

text \<open>The loop over \<open>ftsStatements\<close>, which stops at the first statement that fails.\<close>

fun ftsLoop :: "stmt list \<Rightarrow> sqlite \<Rightarrow> sqlite" where
  "ftsLoop [] d = d"
| "ftsLoop (st # rest) d =
     (case Exec st d of
        (Inl err, d1) \<Rightarrow> d1
      | (Inr res, d1) \<Rightarrow> ftsLoop rest d1)"

definition migrate :: "sqlite \<Rightarrow> error option \<times> sqlite" where
  "migrate d =
     (case Exec CreateLearnings d of
        (Inl err, d1) \<Rightarrow> (Some err, d1)
      | (Inr res, d1) \<Rightarrow> (None, ftsLoop ftsStatements d1))"

definition NewSQLiteBackend :: "sqlite \<Rightarrow> error option \<times> sqlite" where
  "NewSQLiteBackend d = migrate d"

text \<open>
  Two notions in which the behaviour of the initialization is stated; neither is part of
  the program. \<open>state_after sts d\<close> is the database after each statement of \<open>sts\<close> has been
  sent to it once, in order, whatever the statements returned. \<open>all_succeed sts d\<close> holds
  when none of them returns an error in that run.
\<close>

fun state_after :: "stmt list \<Rightarrow> sqlite \<Rightarrow> sqlite" where
  "state_after [] d = d"
| "state_after (st # rest) d = state_after rest (snd (Exec st d))"

fun all_succeed :: "stmt list \<Rightarrow> sqlite \<Rightarrow> bool" where
  "all_succeed [] d = True"
| "all_succeed (st # rest) d =
     (case Exec st d of
        (Inl err, d1) \<Rightarrow> False
      | (Inr res, d1) \<Rightarrow> all_succeed rest d1)"

definition SQLite_Add ::
  "time \<Rightarrow> string \<Rightarrow> string \<Rightarrow> string \<Rightarrow> real \<Rightarrow> sqlite \<Rightarrow> (error + Learning) \<times> sqlite" where
  "SQLite_Add now category content tags confidence d =
     (case Exec (InsertLearning category content tags confidence now now) d of
        (Inl err, d1) \<Rightarrow> (Inl err, d1)
      | (Inr res, d1) \<Rightarrow>
          (Inr (zeroLearning\<lparr>ID := FormatInt (LastInsertId res), Category := category,
                  Content := content, Tags := tags, Confidence := confidence,
                  CreatedAt := now, UpdatedAt := now\<rparr>),
           d1))"

text \<open>\<open>strings.Fields\<close>, with the ASCII white space, and \<open>strings.Join\<close>.\<close>

definition is_space :: "char \<Rightarrow> bool" where
  "is_space c = (c \<in> set [CHR 0x09, CHR 0x0A, CHR 0x0B, CHR 0x0C, CHR 0x0D, CHR '' ''])"

fun fields_from :: "string \<Rightarrow> string \<Rightarrow> string list" where
  "fields_from w [] = (if w = [] then [] else [w])"
| "fields_from w (c # cs) =
     (if is_space c then (if w = [] then fields_from [] cs else w # fields_from [] cs)
      else fields_from (w @ [c]) cs)"

definition Fields :: "string \<Rightarrow> string list" where
  "Fields s = fields_from [] s"

fun Join :: "string list \<Rightarrow> string \<Rightarrow> string" where
  "Join [] sep = []"
| "Join [w] sep = w"
| "Join (w # ws) sep = w @ sep @ Join ws sep"

text \<open>
  \<open>scanLearnings\<close> loops while \<open>rows.Next()\<close> delivers a row and does not read
  \<open>rows.Err()\<close> afterwards, so that a delivery that ended early looks like the end of the
  rows. The rows of the model are typed as the columns are, and \<open>rows.Scan\<close> cannot fail
  on them.
\<close>

definition scanLearnings :: "rowset \<Rightarrow> Learning list" where
  "scanLearnings rows =
     map (\<lambda>r. \<lparr>ID = FormatInt (col_id r), Category = col_category r, Content = col_content r,
               Tags = col_tags r, Confidence = col_confidence r, UseCount = col_use_count r,
               CreatedAt = col_created_at r, UpdatedAt = col_updated_at r\<rparr>) (fetched rows)"

definition category_arg :: "string \<Rightarrow> string option" where
  "category_arg category = (if category \<noteq> [] then Some category else None)"

definition SQLite_Search ::
  "string \<Rightarrow> string \<Rightarrow> int \<Rightarrow> sqlite \<Rightarrow> (error + Learning list) \<times> sqlite" where
  "SQLite_Search query category limit0 d =
     (let limit = (if limit0 \<le> 0 then 10 else limit0);
          ftsQuery = Join (Fields query) '' OR ''
      in case Query (SelectFts ftsQuery (category_arg category) limit) d of
           (Inr rows, d1) \<Rightarrow> (Inr (scanLearnings rows), d1)
         | (Inl err, d1) \<Rightarrow>
             (case Query (SelectLike (map (\<lambda>w. ''%'' @ w @ ''%'') (Fields query))
                            (category_arg category) limit) d1 of
                (Inl err2, d2) \<Rightarrow> (Inl err2, d2)
              | (Inr rows, d2) \<Rightarrow> (Inr (scanLearnings rows), d2)))"

definition SQLite_List :: "string \<Rightarrow> int \<Rightarrow> sqlite \<Rightarrow> (error + Learning list) \<times> sqlite" where
  "SQLite_List category limit0 d =
     (let limit = (if limit0 \<le> 0 then 50 else limit0)
      in case Query (SelectAll (category_arg category) limit) d of
           (Inl err, d1) \<Rightarrow> (Inl err, d1)
         | (Inr rows, d1) \<Rightarrow> (Inr (scanLearnings rows), d1))"

definition SQLite_Update ::
  "time \<Rightarrow> string \<Rightarrow> string \<Rightarrow> string \<Rightarrow> real \<Rightarrow> sqlite \<Rightarrow> error option \<times> sqlite" where
  "SQLite_Update now a content tags confidence d =
     (case Exec (UpdateLearning content tags confidence now a) d of
        (Inl err, d1) \<Rightarrow> (Some err, d1)
      | (Inr res, d1) \<Rightarrow> (None, d1))"

definition SQLite_Delete :: "string \<Rightarrow> sqlite \<Rightarrow> error option \<times> sqlite" where
  "SQLite_Delete a d =
     (case Exec (DeleteLearning a) d of
        (Inl err, d1) \<Rightarrow> (Some err, d1)
      | (Inr res, d1) \<Rightarrow> (None, d1))"

definition SQLite_IncrementUseCount :: "string \<Rightarrow> sqlite \<Rightarrow> sqlite" where
  "SQLite_IncrementUseCount a d = snd (Exec (BumpUseCount a) d)"

definition SQLite_Stats :: "sqlite \<Rightarrow> (error + (string \<times> int) list) \<times> sqlite" where
  "SQLite_Stats d = QueryStats d"

definition SQLite_Close :: "sqlite \<Rightarrow> error option \<times> sqlite" where
  "SQLite_Close d = (None, d\<lparr>closed := True\<rparr>)"

text \<open>
  The backend as a value of the interface. \<open>now\<close> is what \<open>time.Now()\<close> returns while
  the method runs.
\<close>

definition SQLiteBackend :: "time \<Rightarrow> sqlite Backend" where
  "SQLiteBackend now =
     \<lparr>Add = SQLite_Add now, Search = SQLite_Search, List = SQLite_List,
      Update = SQLite_Update now, Delete = SQLite_Delete,
      IncrementUseCount = SQLite_IncrementUseCount, Stats = SQLite_Stats,
      Close = SQLite_Close\<rparr>"

section \<open>Remote document-store backend\<close>

subsection \<open>Go values of dynamic type\<close>

text \<open>
  A value of type \<open>any\<close> in a metadata map. \<open>json.Marshal\<close> writes an \<open>int\<close> and a
  \<open>float64\<close> as a number; \<open>json.Unmarshal\<close> into \<open>any\<close> reads every number back as a
  \<open>float64\<close>.
\<close>

datatype goval =
    GNil
  | GBool bool
  | GInt int
  | GFloat real
  | GString string
  | GSlice "goval list"
  | GMap "(string \<times> goval) list"

fun to_json :: "goval \<Rightarrow> json" where
  "to_json GNil = JNull"
| "to_json (GBool b) = JBool b"
| "to_json (GInt n) = JInt n"
| "to_json (GFloat r) = JFloat r"
| "to_json (GString s) = JStr s"
| "to_json (GSlice xs) = JArr (map to_json xs)"
| "to_json (GMap kvs) = JObj (map (\<lambda>kv. (fst kv, to_json (snd kv))) kvs)"

fun from_json :: "json \<Rightarrow> goval" where
  "from_json JNull = GNil"
| "from_json (JBool b) = GBool b"
| "from_json (JInt n) = GFloat (of_int n)"
| "from_json (JFloat r) = GFloat r"
| "from_json (JStr s) = GString s"
| "from_json (JArr xs) = GSlice (map from_json xs)"
| "from_json (JObj kvs) = GMap (map (\<lambda>kv. (fst kv, from_json (snd kv))) kvs)"

type_synonym metadata = "string \<rightharpoonup> goval"

subsection \<open>The remote services\<close>

text \<open>
  The collection store and the embedding service are reached over HTTP and are not part
  of the program. The model keeps what the backend's requests rely on: the collection is
  a list of records, each with its id, document, metadata (as JSON) and optional
  embedding; a request names the endpoint by its constructor and carries the fields of the
  Go request struct in their order. Any outbound call can fail for a reason outside the
  program (no connection, a status of 400 or more): \<open>outage\<close> is the schedule of these
  failures, one entry per outbound call, \<open>True\<close> for a failure. How the store ranks the
  records for a query, and what vector the embedding service returns for a text, are
  fields of the state.
\<close>

record crec =
  rec_id :: string
  rec_document :: string
  rec_meta :: "string \<rightharpoonup> json"
  rec_embedding :: "real list option"

text \<open>A \<open>where\<close> object \<open>{field: {"$eq": value}}\<close>.\<close>

type_synonym whereclause = "(string \<times> string) option"

datatype creq =
    AddReq "string list" "string list" "metadata list" "real list list"
  | QueryReq "string list" "real list list" int whereclause "string list"
  | GetReq "string list" whereclause int "string list"
  | UpdateReq "string list" "string list" "metadata list"
  | DeleteReq "string list"

record chromaGetResponse =
  IDs :: "string list"
  Documents :: "string list"
  Metadatas :: "metadata list"

record chromaQueryResponse =
  QIDs :: "string list list"
  QDocuments :: "string list list"
  QMetadatas :: "metadata list list"
  QDistances :: "real list list"

datatype cresp = GetResp chromaGetResponse | QueryResp chromaQueryResponse | OtherResp

record remote =
  outage :: "bool list"
  records :: "crec list"
  distance :: "string list \<Rightarrow> real list list \<Rightarrow> crec \<Rightarrow> real"
  embedder :: "string \<Rightarrow> error + real list"

definition call :: "remote \<Rightarrow> remote" where
  "call r = r\<lparr>outage := drop 1 (outage r)\<rparr>"

definition unreachable :: "remote \<Rightarrow> bool" where
  "unreachable r = (take 1 (outage r) = [True])"

definition where_holds :: "whereclause \<Rightarrow> crec \<Rightarrow> bool" where
  "where_holds w c =
     (case w of None \<Rightarrow> True | Some (field, v) \<Rightarrow> rec_meta c field = Some (JStr v))"

definition wire_meta :: "metadata \<Rightarrow> (string \<rightharpoonup> json)" where
  "wire_meta m = (\<lambda>k. map_option to_json (m k))"

definition read_meta :: "(string \<rightharpoonup> json) \<Rightarrow> metadata" where
  "read_meta m = (\<lambda>k. map_option from_json (m k))"

definition get_response :: "crec list \<Rightarrow> chromaGetResponse" where
  "get_response cs =
     \<lparr>IDs = map rec_id cs, Documents = map rec_document cs,
      Metadatas = map (\<lambda>c. read_meta (rec_meta c)) cs\<rparr>"

text \<open>The records an add request describes; a missing document, metadata or embedding is empty.\<close>

fun added :: "string list \<Rightarrow> string list \<Rightarrow> metadata list \<Rightarrow> real list list \<Rightarrow> crec list" where
  "added [] docs metas embs = []"
| "added (i # ids) docs metas embs =
     \<lparr>rec_id = i, rec_document = (case docs of [] \<Rightarrow> [] | x # _ \<Rightarrow> x),
      rec_meta = (case metas of [] \<Rightarrow> Map.empty | m # _ \<Rightarrow> wire_meta m),
      rec_embedding = (case embs of [] \<Rightarrow> None | e # _ \<Rightarrow> Some e)\<rparr>
     # added ids (drop 1 docs) (drop 1 metas) (drop 1 embs)"

text \<open>
  An update replaces the document of each record it names and overwrites the metadata
  keys it carries.
\<close>

fun updated :: "string list \<Rightarrow> string list \<Rightarrow> metadata list \<Rightarrow> crec list \<Rightarrow> crec list" where
  "updated [] docs metas cs = cs"
| "updated (i # ids) docs metas cs =
     updated ids (drop 1 docs) (drop 1 metas)
       (map (\<lambda>c. if rec_id c = i
                  then c\<lparr>rec_document := (case docs of [] \<Rightarrow> rec_document c | x # _ \<Rightarrow> x),
                         rec_meta := (case metas of [] \<Rightarrow> rec_meta c
                                      | m # _ \<Rightarrow> rec_meta c ++ wire_meta m)\<rparr>
                  else c) cs)"

definition post :: "creq \<Rightarrow> remote \<Rightarrow> (error + cresp) \<times> remote" where
  "post req r =
     (let r1 = call r in
      if unreachable r then (Inl ''chroma POST failed'', r1)
      else case req of
             AddReq ids docs metas embs \<Rightarrow>
               (Inr OtherResp,
                r1\<lparr>records :=
                     records r
                       @ filter (\<lambda>c. rec_id c \<notin> set (map rec_id (records r)))
                           (added ids docs metas embs)\<rparr>)
           | QueryReq texts embs n w include \<Rightarrow>
               (let hits = take (nat n)
                             (sort_key (distance r texts embs) (filter (where_holds w) (records r)))
                in (Inr (QueryResp
                           \<lparr>QIDs = [map rec_id hits], QDocuments = [map rec_document hits],
                            QMetadatas = [map (\<lambda>c. read_meta (rec_meta c)) hits],
                            QDistances = [map (distance r texts embs) hits]\<rparr>),
                    r1))
           | GetReq ids w n include \<Rightarrow>
               (let hits = filter (\<lambda>c. (ids = [] \<or> rec_id c \<in> set ids) \<and> where_holds w c)
                             (records r)
                in (Inr (GetResp (get_response (if n > 0 then take (nat n) hits else hits))), r1))
           | UpdateReq ids docs metas \<Rightarrow>
               (Inr OtherResp, r1\<lparr>records := updated ids docs metas (records r)\<rparr>)
           | DeleteReq ids \<Rightarrow>
               (Inr OtherResp, r1\<lparr>records := filter (\<lambda>c. rec_id c \<notin> set ids) (records r)\<rparr>))"

text \<open>\<open>json.Unmarshal\<close> of a response body into the struct the caller expects.\<close>

definition decode_get :: "cresp \<Rightarrow> error + chromaGetResponse" where
  "decode_get resp =
     (case resp of GetResp g \<Rightarrow> Inr g | _ \<Rightarrow> Inl ''json: cannot unmarshal response'')"

definition decode_query :: "cresp \<Rightarrow> error + chromaQueryResponse" where
  "decode_query resp =
     (case resp of QueryResp q \<Rightarrow> Inr q | _ \<Rightarrow> Inl ''json: cannot unmarshal response'')"

subsection \<open>The backend\<close>

record ChromaConfig =
  URL :: string
  Tenant :: string
  Database :: string
  Collection :: string
  EmbeddingModel :: string
  OllamaURL :: string

record ChromaBackend =
  cfg :: ChromaConfig
  collectionID :: string

text \<open>\<open>embed\<close> posts the text to the embedding service.\<close>

definition embed :: "ChromaBackend \<Rightarrow> string \<Rightarrow> remote \<Rightarrow> (error + real list) \<times> remote" where
  "embed b text r =
     (if unreachable r then (Inl ''embedding request failed'', call r)
      else (embedder r text, call r))"

text \<open>
  \<open>int(x)\<close> for a \<open>float64\<close> \<open>x\<close>. The fraction is dropped; when what is left fits a
  64-bit \<open>int\<close> it is the result, and otherwise the conversion still succeeds and the
  result is the implementation's choice, which is a 64-bit \<open>int\<close> all the same
  (\<open>to_int64\<close> keeps the parameter within that range). A number decoded from JSON is
  neither infinite nor NaN.
\<close>

definition to_int64 :: "int \<Rightarrow> int" where
  "to_int64 v = (v + 2 ^ 63) mod 2 ^ 64 - 2 ^ 63"

definition float_to_int :: "golib \<Rightarrow> real \<Rightarrow> int" where
  "float_to_int G x =
     (let t = (if x < 0 then \<lceil>x\<rceil> else \<lfloor>x\<rfloor>)
      in if - (2 ^ 63) \<le> t \<and> t < 2 ^ 63 then t else to_int64 (float_overflow G x))"

text \<open>The type assertions \<open>x.(string)\<close> and \<open>x.(float64)\<close> on the value of a map lookup.\<close>

definition asString :: "goval option \<Rightarrow> string option" where
  "asString x = (case x of Some (GString v) \<Rightarrow> Some v | _ \<Rightarrow> None)"

definition asFloat :: "goval option \<Rightarrow> real option" where
  "asFloat x = (case x of Some (GFloat v) \<Rightarrow> Some v | _ \<Rightarrow> None)"

text \<open>The type switch on the use count: a \<open>float64\<close>, an \<open>int\<close>, or neither.\<close>

definition asCount :: "golib \<Rightarrow> goval option \<Rightarrow> int option" where
  "asCount G x =
     (case x of
        Some (GFloat n) \<Rightarrow> Some (float_to_int G n)
      | Some (GInt n) \<Rightarrow> Some n
      | _ \<Rightarrow> None)"

text \<open>A string that is present and parses as an instant.\<close>

definition asTime :: "golib \<Rightarrow> goval option \<Rightarrow> time option" where
  "asTime G x = (case asString x of Some v \<Rightarrow> parse_rfc3339 G v | None \<Rightarrow> None)"

definition metaToLearning :: "golib \<Rightarrow> string \<Rightarrow> string \<Rightarrow> metadata \<Rightarrow> Learning" where
  "metaToLearning G i doc meta =
     (let l0 = zeroLearning\<lparr>ID := i, Content := doc\<rparr>;
          l1 = (case asString (meta ''category'') of Some v \<Rightarrow> l0\<lparr>Category := v\<rparr> | None \<Rightarrow> l0);
          l2 = (case asString (meta ''tags'') of Some v \<Rightarrow> l1\<lparr>Tags := v\<rparr> | None \<Rightarrow> l1);
          l3 = (case asFloat (meta ''confidence'') of Some v \<Rightarrow> l2\<lparr>Confidence := v\<rparr> | None \<Rightarrow> l2);
          l4 = (case asCount G (meta ''use_count'') of Some n \<Rightarrow> l3\<lparr>UseCount := n\<rparr> | None \<Rightarrow> l3);
          l5 = (case asTime G (meta ''created_at'') of Some t \<Rightarrow> l4\<lparr>CreatedAt := t\<rparr> | None \<Rightarrow> l4);
          l6 = (case asTime G (meta ''updated_at'') of Some t \<Rightarrow> l5\<lparr>UpdatedAt := t\<rparr> | None \<Rightarrow> l5)
      in l6)"

text \<open>The Learning the backend reads out of a record of the remote collection.\<close>

definition stored_learning :: "golib \<Rightarrow> crec \<Rightarrow> Learning" where
  "stored_learning G c = metaToLearning G (rec_id c) (rec_document c) (read_meta (rec_meta c))"

text \<open>
  \<open>chromaResultsToLearnings\<close> indexes the three slices without a bound check: it panics,
  here \<open>None\<close>, when documents or metadata are fewer than ids.
\<close>

definition chromaResultsToLearnings ::
  "golib \<Rightarrow> string list \<Rightarrow> string list \<Rightarrow> metadata list \<Rightarrow> Learning list option" where
  "chromaResultsToLearnings G ids docs metas =
     (if length ids \<le> length docs \<and> length ids \<le> length metas
      then Some (map (\<lambda>i. metaToLearning G (ids ! i) (docs ! i) (metas ! i)) [0..<length ids])
      else None)"

definition chromaGetToLearnings :: "golib \<Rightarrow> chromaGetResponse \<Rightarrow> Learning list" where
  "chromaGetToLearnings G resp =
     map (\<lambda>i. metaToLearning G (IDs resp ! i)
                 (if i < length (Documents resp) then Documents resp ! i else [])
                 (if i < length (Metadatas resp) then Metadatas resp ! i else Map.empty))
       [0..<length (IDs resp)]"

text \<open>\<open>sort.Slice\<close> by \<open>UpdatedAt\<close>, latest first; equal instants keep their order here.\<close>

definition sortByUpdated :: "Learning list \<Rightarrow> Learning list" where
  "sortByUpdated ls = sort_key (\<lambda>l. - UpdatedAt l) ls"

definition learning_meta ::
  "string \<Rightarrow> string \<Rightarrow> real \<Rightarrow> int \<Rightarrow> string \<Rightarrow> string \<Rightarrow> metadata" where
  "learning_meta category tags confidence useCount createdAt updatedAt =
     [''category'' \<mapsto> GString category, ''tags'' \<mapsto> GString tags,
      ''confidence'' \<mapsto> GFloat confidence, ''use_count'' \<mapsto> GInt useCount,
      ''created_at'' \<mapsto> GString createdAt, ''updated_at'' \<mapsto> GString updatedAt]"

definition Chroma_Add ::
  "golib \<Rightarrow> ChromaBackend \<Rightarrow> time \<Rightarrow> string \<Rightarrow> string \<Rightarrow> string \<Rightarrow> real \<Rightarrow> remote
     \<Rightarrow> (error + Learning) \<times> remote" where
  "Chroma_Add G b now category content tags confidence r =
     (let i = FormatInt now;
          meta = learning_meta category tags confidence 0 (fmt_rfc3339 G now) (fmt_rfc3339 G now);
          (embs, r1) =
            (if EmbeddingModel (cfg b) \<noteq> []
             then (case embed b content r of
                     (Inl err, r0) \<Rightarrow> ([], r0)
                   | (Inr emb, r0) \<Rightarrow> ([emb], r0))
             else ([], r))
      in case post (AddReq [i] [content] [meta] embs) r1 of
           (Inl err, r2) \<Rightarrow> (Inl err, r2)
         | (Inr resp, r2) \<Rightarrow>
             (Inr (zeroLearning\<lparr>ID := i, Category := category, Content := content, Tags := tags,
                     Confidence := confidence, CreatedAt := now, UpdatedAt := now\<rparr>),
              r2))"

definition category_where :: "string \<Rightarrow> whereclause" where
  "category_where category = (if category \<noteq> [] then Some (''category'', category) else None)"

text \<open>
  \<open>Search\<close> returns \<open>None\<close> where the Go code panics: \<open>resp.Documents[0]\<close> and
  \<open>resp.Metadatas[0]\<close> are read without a check once \<open>resp.IDs[0]\<close> is not empty.
\<close>

definition Chroma_Search ::
  "golib \<Rightarrow> ChromaBackend \<Rightarrow> string \<Rightarrow> string \<Rightarrow> int \<Rightarrow> remote
     \<Rightarrow> (error + Learning list) option \<times> remote" where
  "Chroma_Search G b query category limit0 r =
     (let limit = (if limit0 \<le> 0 then 10 else limit0);
          include = [''documents'', ''metadatas'', ''distances''];
          (texts, embs, r1) =
            (if EmbeddingModel (cfg b) \<noteq> []
             then (case embed b query r of
                     (Inl err, r0) \<Rightarrow> ([query], [], r0)
                   | (Inr emb, r0) \<Rightarrow> ([], [emb], r0))
             else ([query], [], r))
      in case post (QueryReq texts embs limit (category_where category) include) r1 of
           (Inl err, r2) \<Rightarrow> (Some (Inl err), r2)
         | (Inr data, r2) \<Rightarrow>
             (case decode_query data of
                Inl err \<Rightarrow> (Some (Inl (''parse query response: '' @ err)), r2)
              | Inr resp \<Rightarrow>
                  (case QIDs resp of
                     [] \<Rightarrow> (Some (Inr []), r2)
                   | ids # _ \<Rightarrow>
                       if length ids = 0 then (Some (Inr []), r2)
                       else (case (QDocuments resp, QMetadatas resp) of
                               (docs # _, metas # _) \<Rightarrow>
                                 (map_option Inr (chromaResultsToLearnings G ids docs metas), r2)
                             | _ \<Rightarrow> (None, r2)))))"

definition Chroma_List ::
  "golib \<Rightarrow> ChromaBackend \<Rightarrow> string \<Rightarrow> int \<Rightarrow> remote \<Rightarrow> (error + Learning list) \<times> remote" where
  "Chroma_List G b category limit0 r =
     (let limit = (if limit0 \<le> 0 then 50 else limit0)
      in case post (GetReq [] (category_where category) limit [''documents'', ''metadatas'']) r of
           (Inl err, r1) \<Rightarrow> (Inl err, r1)
         | (Inr data, r1) \<Rightarrow>
             (case decode_get data of
                Inl err \<Rightarrow> (Inl err, r1)
              | Inr resp \<Rightarrow> (Inr (sortByUpdated (chromaGetToLearnings G resp)), r1)))"

definition getByID ::
  "golib \<Rightarrow> ChromaBackend \<Rightarrow> string \<Rightarrow> remote \<Rightarrow> (error + Learning) \<times> remote" where
  "getByID G b i r =
     (case post (GetReq [i] None 0 [''documents'', ''metadatas'']) r of
        (Inl err, r1) \<Rightarrow> (Inl err, r1)
      | (Inr data, r1) \<Rightarrow>
          (case decode_get data of
             Inl err \<Rightarrow> (Inl err, r1)
           | Inr resp \<Rightarrow>
               (case chromaGetToLearnings G resp of
                  [] \<Rightarrow> (Inl (''not found: '' @ i), r1)
                | l # _ \<Rightarrow> (Inr l, r1))))"

text \<open>
  \<open>Update\<close> drops the error of \<open>getByID\<close> and keeps only the record, which is \<open>nil\<close>
  exactly when there was an error.
\<close>

definition Chroma_Update ::
  "golib \<Rightarrow> ChromaBackend \<Rightarrow> time \<Rightarrow> string \<Rightarrow> string \<Rightarrow> string \<Rightarrow> real \<Rightarrow> remote
     \<Rightarrow> error option \<times> remote" where
  "Chroma_Update G b now i content tags confidence r =
     (let (existing, r1) = getByID G b i r;
          (useCount, category, createdAt) =
            (case existing of
               Inr l \<Rightarrow> (UseCount l, Category l, fmt_rfc3339 G (CreatedAt l))
             | Inl err \<Rightarrow> (0, ''general'', fmt_rfc3339 G now))
      in case post (UpdateReq [i] [content]
                      [learning_meta category tags confidence useCount createdAt
                         (fmt_rfc3339 G now)]) r1 of
           (Inl err, r2) \<Rightarrow> (Some err, r2)
         | (Inr resp, r2) \<Rightarrow> (None, r2))"

definition Chroma_Delete :: "ChromaBackend \<Rightarrow> string \<Rightarrow> remote \<Rightarrow> error option \<times> remote" where
  "Chroma_Delete b i r =
     (case post (DeleteReq [i]) r of
        (Inl err, r1) \<Rightarrow> (Some err, r1)
      | (Inr resp, r1) \<Rightarrow> (None, r1))"

definition Chroma_IncrementUseCount ::
  "golib \<Rightarrow> ChromaBackend \<Rightarrow> string \<Rightarrow> remote \<Rightarrow> remote" where
  "Chroma_IncrementUseCount G b i r =
     (case getByID G b i r of
        (Inl err, r1) \<Rightarrow> r1
      | (Inr existing, r1) \<Rightarrow>
          snd (post (UpdateReq [i] [Content existing]
                       [learning_meta (Category existing) (Tags existing) (Confidence existing)
                          (UseCount existing + 1) (fmt_rfc3339 G (CreatedAt existing))
                          (fmt_rfc3339 G (UpdatedAt existing))]) r1))"

text \<open>The tally of \<open>Stats\<close>: one more for the category of each metadata map that has one.\<close>

fun tally :: "metadata list \<Rightarrow> (string \<times> int) list \<Rightarrow> (string \<times> int) list" where
  "tally [] stats = stats"
| "tally (meta # metas) stats =
     (case meta ''category'' of
        Some (GString cat) \<Rightarrow>
          tally metas
            (case map_of stats cat of
               None \<Rightarrow> stats @ [(cat, 1)]
             | Some n \<Rightarrow> map (\<lambda>e. if fst e = cat then (cat, n + 1) else e) stats)
      | _ \<Rightarrow> tally metas stats)"

definition Chroma_Stats ::
  "ChromaBackend \<Rightarrow> remote \<Rightarrow> (error + (string \<times> int) list) \<times> remote" where
  "Chroma_Stats b r =
     (case post (GetReq [] None 0 [''metadatas'']) r of
        (Inl err, r1) \<Rightarrow> (Inl err, r1)
      | (Inr data, r1) \<Rightarrow>
          (case decode_get data of
             Inl err \<Rightarrow> (Inl err, r1)
           | Inr resp \<Rightarrow> (Inr (tally (Metadatas resp) []), r1)))"

definition Chroma_Close :: "remote \<Rightarrow> error option \<times> remote" where
  "Chroma_Close r = (None, r)"

section \<open>Tool Router\<close>

record ContentBlock =
  Type :: string
  Text :: string

record ToolResult =
  Content :: "ContentBlock list"
  IsError :: bool

definition textResult :: "string \<Rightarrow> ToolResult" where
  "textResult text = \<lparr>Content = [\<lparr>Type = ''text'', Text = text\<rparr>], IsError = False\<rparr>"

definition errorResult :: "string \<Rightarrow> ToolResult" where
  "errorResult text = \<lparr>Content = [\<lparr>Type = ''text'', Text = text\<rparr>], IsError = True\<rparr>"

definition validCategories :: "string list" where
  "validCategories =
     [''preferences'', ''personal_context'', ''technical'', ''personal_growth'', ''mistakes'',
      ''general'']"

definition nl :: string where
  "nl = [CHR 0x0A]"

definition quote :: string where
  "quote = [CHR 0x27]"

text \<open>The argument structs of the handlers, as lists of JSON member names and kinds.\<close>

definition lookupArgs :: "(string \<times> kind) list" where
  "lookupArgs = [(''query'', KString), (''category'', KString), (''limit'', KInt)]"

definition storeArgs :: "(string \<times> kind) list" where
  "storeArgs =
     [(''category'', KString), (''content'', KString), (''tags'', KString),
      (''confidence'', KFloat)]"

definition listArgs :: "(string \<times> kind) list" where
  "listArgs = [(''category'', KString), (''limit'', KInt)]"

definition updateArgs :: "(string \<times> kind) list" where
  "updateArgs =
     [(''id'', KString), (''content'', KString), (''tags'', KString), (''confidence'', KFloat)]"

definition deleteArgs :: "(string \<times> kind) list" where
  "deleteArgs = [(''id'', KString)]"

definition tagsLine :: "Learning \<Rightarrow> string" where
  "tagsLine l = (if Tags l \<noteq> [] then ''tags: '' @ Tags l @ nl else [])"

definition lookupEntry :: "golib \<Rightarrow> Learning \<Rightarrow> string" where
  "lookupEntry G l =
     ''--- [ID:'' @ ID l @ '' | '' @ Category l @ '' | confidence:'' @ fmt_f1 G (Confidence l)
       @ '']'' @ nl @ Learning.Content l @ nl @ tagsLine l @ nl"

definition handleLookup ::
  "golib \<Rightarrow> 's Backend \<Rightarrow> RawMessage \<Rightarrow> 's \<Rightarrow> ToolResult \<times> 's" where
  "handleLookup G backend args s =
     (case Unmarshal lookupArgs args Map.empty of
        (Some err, p) \<Rightarrow> (errorResult (''invalid arguments: '' @ err), s)
      | (None, p) \<Rightarrow>
          (let limit = (if intF p ''limit'' \<le> 0 then 10 else intF p ''limit'') in
           case Search backend (strF p ''query'') (strF p ''category'') limit s of
             (Inl err, s1) \<Rightarrow> (errorResult (''search failed: '' @ err), s1)
           | (Inr learnings, s1) \<Rightarrow>
               if length learnings = 0
               then (textResult
                       ''No relevant learnings found. This may be a new topic or a fresh start.'',
                     s1)
               else (textResult
                       (''Found '' @ FormatInt (int (length learnings)) @ '' relevant learnings:''
                          @ nl @ nl @ concat (map (lookupEntry G) learnings)),
                     fold (\<lambda>l. IncrementUseCount backend (ID l)) learnings s1)))"

definition handleStore :: "'s Backend \<Rightarrow> RawMessage \<Rightarrow> 's \<Rightarrow> ToolResult \<times> 's" where
  "handleStore backend args s =
     (case Unmarshal storeArgs args Map.empty of
        (Some err, p) \<Rightarrow> (errorResult (''invalid arguments: '' @ err), s)
      | (None, p) \<Rightarrow>
          (let confidence = (if floatF p ''confidence'' = 0 then 0.8 else floatF p ''confidence'');
               category = (if strF p ''category'' = [] then ''general'' else strF p ''category'')
           in case Add backend category (strF p ''content'') (strF p ''tags'') confidence s of
                (Inl err, s1) \<Rightarrow> (errorResult (''failed to store: '' @ err), s1)
              | (Inr l, s1) \<Rightarrow>
                  (textResult
                     (''Learning stored successfully with ID:'' @ ID l @ '' in category '' @ quote
                        @ Category l @ quote @ ''.''),
                   s1)))"

definition listEntry :: "golib \<Rightarrow> Learning \<Rightarrow> string" where
  "listEntry G l =
     ''[ID:'' @ ID l @ '' | '' @ Category l @ '' | confidence:'' @ fmt_f1 G (Confidence l)
       @ '' | used:'' @ FormatInt (UseCount l) @ '' times]'' @ nl @ Learning.Content l @ nl
       @ tagsLine l @ ''updated: '' @ fmt_date G (UpdatedAt l) @ nl @ nl"

text \<open>\<open>handleList\<close> calls \<open>json.Unmarshal\<close> and drops what it returns.\<close>

definition handleList ::
  "golib \<Rightarrow> 's Backend \<Rightarrow> RawMessage \<Rightarrow> 's \<Rightarrow> ToolResult \<times> 's" where
  "handleList G backend args s =
     (let p = snd (Unmarshal listArgs args Map.empty);
          limit = (if intF p ''limit'' \<le> 0 then 50 else intF p ''limit'')
      in case List backend (strF p ''category'') limit s of
           (Inl err, s1) \<Rightarrow> (errorResult (''list failed: '' @ err), s1)
         | (Inr learnings, s1) \<Rightarrow>
             if length learnings = 0 then (textResult ''No learnings stored yet.'', s1)
             else (textResult
                     (''Stored learnings ('' @ FormatInt (int (length learnings)) @ ''):'' @ nl @ nl
                        @ concat (map (listEntry G) learnings)),
                   s1))"

definition handleUpdate :: "'s Backend \<Rightarrow> RawMessage \<Rightarrow> 's \<Rightarrow> ToolResult \<times> 's" where
  "handleUpdate backend args s =
     (case Unmarshal updateArgs args Map.empty of
        (Some err, p) \<Rightarrow> (errorResult (''invalid arguments: '' @ err), s)
      | (None, p) \<Rightarrow>
          (let confidence = (if floatF p ''confidence'' = 0 then 0.8 else floatF p ''confidence'')
           in case Update backend (strF p ''id'') (strF p ''content'') (strF p ''tags'') confidence s of
                (Some err, s1) \<Rightarrow> (errorResult (''update failed: '' @ err), s1)
              | (None, s1) \<Rightarrow>
                  (textResult (''Learning ID:'' @ strF p ''id'' @ '' updated successfully.''), s1)))"

definition handleDelete :: "'s Backend \<Rightarrow> RawMessage \<Rightarrow> 's \<Rightarrow> ToolResult \<times> 's" where
  "handleDelete backend args s =
     (case Unmarshal deleteArgs args Map.empty of
        (Some err, p) \<Rightarrow> (errorResult (''invalid arguments: '' @ err), s)
      | (None, p) \<Rightarrow>
          (case Delete backend (strF p ''id'') s of
             (Some err, s1) \<Rightarrow> (errorResult (''delete failed: '' @ err), s1)
           | (None, s1) \<Rightarrow> (textResult (''Learning ID:'' @ strF p ''id'' @ '' deleted.''), s1)))"

text \<open>\<open>%-20s\<close>: the string, padded with spaces on the right to twenty characters.\<close>

definition pad20 :: "string \<Rightarrow> string" where
  "pad20 s = s @ replicate (20 - length s) CHR '' ''"

definition statsLine :: "string \<times> int \<Rightarrow> string" where
  "statsLine e = ''  '' @ pad20 (fst e) @ '' '' @ FormatInt (snd e) @ nl"

definition handleStats :: "'s Backend \<Rightarrow> 's \<Rightarrow> ToolResult \<times> 's" where
  "handleStats backend s =
     (case Stats backend s of
        (Inl err, s1) \<Rightarrow> (errorResult (''stats failed: '' @ err), s1)
      | (Inr stats, s1) \<Rightarrow>
          (textResult
             (''Learnings by category:'' @ nl @ concat (map statsLine stats) @ nl @ ''Total: ''
                @ FormatInt (sum_list (map snd stats)) @ '' learnings'' @ nl),
           s1))"

definition HandleTool ::
  "golib \<Rightarrow> 's Backend \<Rightarrow> string \<Rightarrow> RawMessage \<Rightarrow> 's \<Rightarrow> ToolResult \<times> 's" where
  "HandleTool G backend name args s =
     (if name = ''lookup_context'' then handleLookup G backend args s
      else if name = ''store_learning'' then handleStore backend args s
      else if name = ''list_learnings'' then handleList G backend args s
      else if name = ''update_learning'' then handleUpdate backend args s
      else if name = ''delete_learning'' then handleDelete backend args s
      else if name = ''get_stats'' then handleStats backend s
      else (errorResult (''unknown tool: '' @ name), s))"

section \<open>Protocol Dispatcher\<close>

record Request =
  JSONRPC :: string
  ID :: "json option"
  Method :: string
  Params :: RawMessage

record RPCError =
  Code :: int
  Message :: string

text \<open>
  The tool catalogue of \<open>GetTools\<close>: for each tool its name, its properties with their
  type, enumeration and default, and its required properties. The descriptions, which
  are free text, are left out.
\<close>

record Property =
  PType :: string
  Enum :: "string list"
  Default :: "json option"

record Tool =
  Name :: string
  Properties :: "(string \<times> Property) list"
  Required :: "string list"

definition property :: "string \<Rightarrow> Property" where
  "property t = \<lparr>PType = t, Enum = [], Default = None\<rparr>"

definition GetTools :: "Tool list" where
  "GetTools =
     [\<lparr>Name = ''lookup_context'',
       Properties =
         [(''query'', property ''string''),
          (''category'', (property ''string'')\<lparr>Enum := [] # validCategories\<rparr>),
          (''limit'', (property ''integer'')\<lparr>Default := Some (JInt 10)\<rparr>)],
       Required = [''query'']\<rparr>,
      \<lparr>Name = ''store_learning'',
       Properties =
         [(''category'', (property ''string'')\<lparr>Enum := validCategories\<rparr>),
          (''content'', property ''string''), (''tags'', property ''string''),
          (''confidence'', (property ''number'')\<lparr>Default := Some (JFloat 0.8)\<rparr>)],
       Required = [''category'', ''content'']\<rparr>,
      \<lparr>Name = ''list_learnings'',
       Properties =
         [(''category'', (property ''string'')\<lparr>Enum := [] # validCategories\<rparr>),
          (''limit'', (property ''integer'')\<lparr>Default := Some (JInt 50)\<rparr>)],
       Required = []\<rparr>,
      \<lparr>Name = ''update_learning'',
       Properties =
         [(''id'', property ''string''), (''content'', property ''string''), (''tags'', property ''string''),
          (''confidence'', property ''number'')],
       Required = [''id'', ''content'']\<rparr>,
      \<lparr>Name = ''delete_learning'', Properties = [(''id'', property ''string'')],
       Required = [''id'']\<rparr>,
      \<lparr>Name = ''get_stats'', Properties = [], Required = []\<rparr>]"

text \<open>
  What \<open>dispatch\<close> returns as its \<open>any\<close>: \<open>nil\<close>, the answer to \<open>initialize\<close> (which
  varies only in the server version), the empty map of \<open>ping\<close>, the tool catalogue, or
  the result of a tool.
\<close>

datatype result =
    NilResult
  | InitializeResult string
  | EmptyMap
  | ToolsList "Tool list"
  | ToolCallResult ToolResult

record Response =
  RespJSONRPC :: string
  RespID :: "json option"
  Result :: result
  Error :: "RPCError option"

record 's Server =
  backend :: "'s Backend"
  version :: string

definition NewServer :: "'s Backend \<Rightarrow> 's Server" where
  "NewServer b = \<lparr>backend = b, version = ''1.0.0''\<rparr>"

definition handleInitialize :: "'s Server \<Rightarrow> RawMessage \<Rightarrow> result \<times> RPCError option" where
  "handleInitialize srv params = (InitializeResult (version srv), None)"

definition toolCallParams :: "(string \<times> kind) list" where
  "toolCallParams = [(''name'', KString), (''arguments'', KRaw)]"

definition handleToolCall ::
  "golib \<Rightarrow> 's Server \<Rightarrow> RawMessage \<Rightarrow> 's \<Rightarrow> (result \<times> RPCError option) \<times> 's" where
  "handleToolCall G srv params s =
     (case Unmarshal toolCallParams params Map.empty of
        (Some err, p) \<Rightarrow> ((NilResult, Some \<lparr>Code = - 32602, Message = ''invalid params''\<rparr>), s)
      | (None, p) \<Rightarrow>
          (let (res, s1) = HandleTool G (backend srv) (strF p ''name'') (jsonF p ''arguments'') s
           in ((ToolCallResult res, None), s1)))"

definition dispatch ::
  "golib \<Rightarrow> 's Server \<Rightarrow> Request \<Rightarrow> 's \<Rightarrow> (result \<times> RPCError option) \<times> 's" where
  "dispatch G srv req s =
     (if Method req = ''initialize'' then (handleInitialize srv (Params req), s)
      else if Method req = ''notifications/initialized'' then ((NilResult, None), s)
      else if Method req = ''ping'' then ((EmptyMap, None), s)
      else if Method req = ''tools/list'' then ((ToolsList GetTools, None), s)
      else if Method req = ''tools/call'' then handleToolCall G srv (Params req) s
      else ((NilResult,
             Some \<lparr>Code = - 32601, Message = ''method not found: '' @ Method req\<rparr>), s))"

text \<open>
  What a handler leaves in the \<open>http.ResponseWriter\<close>: the status, the content type and
  the body, which is nothing, a plain text, one encoded response or an encoded array of
  responses.
\<close>

datatype body = NoBody | Plain string | One Response | Many "Response list"

record http_response =
  Status :: nat
  ContentType :: string
  Body :: body

definition writeError :: "json option \<Rightarrow> int \<Rightarrow> string \<Rightarrow> http_response" where
  "writeError i code msg =
     \<lparr>Status = 200, ContentType = ''application/json'',
      Body = One \<lparr>RespJSONRPC = ''2.0'', RespID = i, Result = NilResult,
                  Error = Some \<lparr>Code = code, Message = msg\<rparr>\<rparr>\<rparr>"

fun trimSpace :: "string \<Rightarrow> string" where
  "trimSpace [] = []"
| "trimSpace (c # cs) =
     (if c = CHR '' '' \<or> c = CHR 0x09 \<or> c = CHR 0x0A \<or> c = CHR 0x0D then trimSpace cs
      else c # cs)"

definition requestFields :: "(string \<times> kind) list" where
  "requestFields =
     [(''jsonrpc'', KString), (''id'', KAny), (''method'', KString), (''params'', KRaw)]"

definition to_Request :: "gostruct \<Rightarrow> Request" where
  "to_Request p =
     \<lparr>JSONRPC = strF p ''jsonrpc'', ID = jsonF p ''id'', Method = strF p ''method'',
      Params = jsonF p ''params''\<rparr>"

text \<open>\<open>json.Unmarshal(body, &req)\<close> for one request and for a slice of requests.\<close>

definition unmarshal_request :: "golib \<Rightarrow> string \<Rightarrow> error + Request" where
  "unmarshal_request G text =
     (case json_parse G text of
        None \<Rightarrow> Inl ''invalid character''
      | Some v \<Rightarrow>
          (case Unmarshal requestFields (Some v) Map.empty of
             (Some err, p) \<Rightarrow> Inl err
           | (None, p) \<Rightarrow> Inr (to_Request p)))"

fun unmarshal_elements :: "json list \<Rightarrow> error + Request list" where
  "unmarshal_elements [] = Inr []"
| "unmarshal_elements (v # vs) =
     (case Unmarshal requestFields (Some v) Map.empty of
        (Some err, p) \<Rightarrow> Inl err
      | (None, p) \<Rightarrow>
          (case unmarshal_elements vs of
             Inl err \<Rightarrow> Inl err
           | Inr reqs \<Rightarrow> Inr (to_Request p # reqs)))"

definition unmarshal_requests :: "golib \<Rightarrow> string \<Rightarrow> error + Request list" where
  "unmarshal_requests G text =
     (case json_parse G text of
        None \<Rightarrow> Inl ''invalid character''
      | Some JNull \<Rightarrow> Inr []
      | Some (JArr vs) \<Rightarrow> unmarshal_elements vs
      | Some v \<Rightarrow> Inl (''json: cannot unmarshal '' @ json_type_name v @ '' into Go value of type []main.Request''))"

definition respond :: "Request \<Rightarrow> result \<Rightarrow> RPCError option \<Rightarrow> Response" where
  "respond req res rpcErr =
     (case rpcErr of
        Some e \<Rightarrow> \<lparr>RespJSONRPC = ''2.0'', RespID = ID req, Result = NilResult, Error = Some e\<rparr>
      | None \<Rightarrow> \<lparr>RespJSONRPC = ''2.0'', RespID = ID req, Result = res, Error = None\<rparr>)"

text \<open>The loop of \<open>handleBatch\<close>, with the slice \<open>responses\<close> it appends to.\<close>

fun batchLoop ::
  "golib \<Rightarrow> 's Server \<Rightarrow> Request list \<Rightarrow> Response list \<Rightarrow> 's \<Rightarrow> Response list \<times> 's" where
  "batchLoop G srv [] responses s = (responses, s)"
| "batchLoop G srv (req # reqs) responses s =
     (case dispatch G srv req s of
        ((res, rpcErr), s1) \<Rightarrow>
          batchLoop G srv reqs
            (if ID req \<noteq> None then responses @ [respond req res rpcErr] else responses) s1)"

text \<open>
  For the statement of what a batch answers: the requests of a batch, each with what
  \<open>dispatch\<close> returns for it when the requests are dispatched in order, each in the state
  the one before it left.
\<close>

fun dispatched ::
  "golib \<Rightarrow> 's Server \<Rightarrow> Request list \<Rightarrow> 's \<Rightarrow> (Request \<times> result \<times> RPCError option) list" where
  "dispatched G srv [] s = []"
| "dispatched G srv (req # reqs) s =
     (case dispatch G srv req s of
        ((res, rpcErr), s1) \<Rightarrow> (req, res, rpcErr) # dispatched G srv reqs s1)"

definition handleBatch :: "golib \<Rightarrow> 's Server \<Rightarrow> string \<Rightarrow> 's \<Rightarrow> http_response \<times> 's" where
  "handleBatch G srv text s =
     (case unmarshal_requests G text of
        Inl err \<Rightarrow> (writeError None (- 32700) ''parse error'', s)
      | Inr reqs \<Rightarrow>
          (case batchLoop G srv reqs [] s of
             (responses, s1) \<Rightarrow>
               (\<lparr>Status = 200, ContentType = ''application/json'', Body = Many responses\<rparr>, s1)))"

text \<open>
  \<open>handlePost\<close>, from the outcome of reading the request body; at most \<open>1 << 20\<close> bytes
  of it are read.
\<close>

definition handlePost ::
  "golib \<Rightarrow> 's Server \<Rightarrow> error + string \<Rightarrow> 's \<Rightarrow> http_response \<times> 's" where
  "handlePost G srv rd s =
     (case rd of
        Inl err \<Rightarrow>
          (\<lparr>Status = 400, ContentType = ''text/plain; charset=utf-8'',
            Body = Plain (''read error'' @ nl)\<rparr>, s)
      | Inr sent \<Rightarrow>
          (let text = take (2 ^ 20) sent; trimmed = trimSpace text in
           if length trimmed > 0 \<and> take 1 trimmed = ''[''
           then handleBatch G srv text s
           else case unmarshal_request G text of
                  Inl err \<Rightarrow> (writeError None (- 32700) ''parse error'', s)
                | Inr req \<Rightarrow>
                    (case dispatch G srv req s of
                       ((res, rpcErr), s1) \<Rightarrow>
                         if ID req = None \<and> rpcErr = None
                         then (\<lparr>Status = 202, ContentType = [], Body = NoBody\<rparr>, s1)
                         else (\<lparr>Status = 200, ContentType = ''application/json'',
                                Body = One (respond req res rpcErr)\<rparr>, s1))))"

section \<open>Sample values\<close>

text \<open>
  Concrete values on which the theorems below are exercised: a stand-in for the library
  routines (an instant is written as its decimal number of nanoseconds, the only JSON
  texts it reads are the three listed, and a \<open>float64\<close> too large for an \<open>int\<close> converts
  to the least \<open>int\<close>, as it does on amd64), a new database file on an engine built without
  FTS5 and on one built with it (where every expression is well formed, matches every
  entry and ranks all entries alike), an empty remote collection, and the remote backend with the
  configuration of \<open>DefaultConfig\<close>.
\<close>

definition sampleTexts :: "(string \<times> json) list" where
  \<open>sampleTexts =
     [(''{"jsonrpc":"2.0","method":"nope"}'',
       JObj [(''jsonrpc'', JStr ''2.0''), (''method'', JStr ''nope'')]),
      (''{"jsonrpc":"2.0","method":"ping"}'',
       JObj [(''jsonrpc'', JStr ''2.0''), (''method'', JStr ''ping'')]),
      (''[{"jsonrpc":"2.0","method":"nope"},{"jsonrpc":"2.0","id":1,"method":"ping"},{"jsonrpc":"2.0","id":2,"method":"nope"}]'',
       JArr [JObj [(''jsonrpc'', JStr ''2.0''), (''method'', JStr ''nope'')],
             JObj [(''jsonrpc'', JStr ''2.0''), (''id'', JInt 1), (''method'', JStr ''ping'')],
             JObj [(''jsonrpc'', JStr ''2.0''), (''id'', JInt 2), (''method'', JStr ''nope'')]])]\<close>

definition sampleLib :: golib where
  "sampleLib =
     \<lparr>fmt_f1 = (\<lambda>x. ''0.0''), fmt_date = (\<lambda>t. ''2006-01-02''), fmt_rfc3339 = FormatInt,
      parse_rfc3339 = text_to_int, json_parse = map_of sampleTexts,
      float_overflow = (\<lambda>x. - (2 ^ 63))\<rparr>"

definition emptyDb :: sqlite where
  "emptyDb =
     \<lparr>closed = False, faults = [], fts5 = None, tbl = None, seq = 0, learnings_fts = None,
      triggers = [], issued = []\<rparr>"

definition freshDb :: sqlite where
  "freshDb = snd (NewSQLiteBackend emptyDb)"

definition sampleFts :: fts5_module where
  "sampleFts = \<lparr>fts_valid = (\<lambda>e. True), fts_match = (\<lambda>e r. True), fts_rank = (\<lambda>e r. 0)\<rparr>"

definition emptyRemote :: remote where
  "emptyRemote =
     \<lparr>outage = [], records = [], distance = (\<lambda>texts embs c. 0),
      embedder = (\<lambda>text. Inl ''no embedding model'')\<rparr>"

definition sampleChroma :: ChromaBackend where
  "sampleChroma =
     \<lparr>cfg = \<lparr>URL = ''http://chroma:8000'', Tenant = ''default_tenant'',
             Database = ''default_database'', Collection = ''self_improvement'',
             EmbeddingModel = [], OllamaURL = ''http://ollama:11434''\<rparr>,
      collectionID = ''c0''\<rparr>"

definition sampleRecord :: crec where
  "sampleRecord =
     \<lparr>rec_id = ''7'', rec_document = ''uses vim'',
      rec_meta = [''category'' \<mapsto> JStr ''technical'', ''tags'' \<mapsto> JStr ''editor'',
                  ''confidence'' \<mapsto> JFloat 0.9, ''use_count'' \<mapsto> JInt 3,
                  ''created_at'' \<mapsto> JStr ''5'', ''updated_at'' \<mapsto> JStr ''6''],
      rec_embedding = None\<rparr>"

text \<open>
  A database with two learnings of different categories; a database whose initialization
  created the full-text table and then failed on the first trigger, and the same database
  after one learning has been added; a remote collection holding the sample record,
  reached through a connection on which the next outbound call fails and the ones after it
  go through; a remote collection with two records of different categories.
\<close>

definition twoRowsDb :: sqlite where
  "twoRowsDb =
     snd (SQLite_Add 6 ''preferences'' ''likes vim bindings'' [] 0.8
            (snd (SQLite_Add 5 ''technical'' ''uses vim'' ''editor'' 0.9 freshDb)))"

definition halfInitDb :: sqlite where
  "halfInitDb =
     snd (NewSQLiteBackend (emptyDb\<lparr>fts5 := Some sampleFts, faults := [False, False, True]\<rparr>))"

definition staleDb :: sqlite where
  "staleDb = snd (SQLite_Add 5 ''technical'' ''uses vim'' ''editor'' 0.9 halfInitDb)"

definition flakyRemote :: remote where
  "flakyRemote = emptyRemote\<lparr>outage := [True], records := [sampleRecord]\<rparr>"

definition otherRecord :: crec where
  "otherRecord =
     \<lparr>rec_id = ''8'', rec_document = ''likes vim bindings'',
      rec_meta = [''category'' \<mapsto> JStr ''preferences'', ''tags'' \<mapsto> JStr [],
                  ''confidence'' \<mapsto> JFloat 0.8, ''use_count'' \<mapsto> JInt 0,
                  ''created_at'' \<mapsto> JStr ''6'', ''updated_at'' \<mapsto> JStr ''6''],
      rec_embedding = None\<rparr>"

definition twoRecords :: remote where
  "twoRecords = emptyRemote\<lparr>records := [sampleRecord, otherRecord]\<rparr>"

section \<open>Evaluation of the sample values\<close>

lemmas engine_defs =
  Exec_def Query_def QueryStats_def receive_def refused_def no_rows_def new_row_def
  limit_rows_def category_is_def id_is_def delivered_def fire_def doc_of_def without_def

lemmas remote_defs =
  post_def call_def unreachable_def where_holds_def get_response_def decode_get_def
  decode_query_def

lemmas json_defs = Unmarshal_def find_field_def strF_def intF_def floatF_def jsonF_def

lemmas backend_defs =
  SQLiteBackend_def SQLite_Add_def SQLite_List_def SQLite_Search_def SQLite_Update_def
  SQLite_Delete_def scanLearnings_def category_arg_def

lemma freshDb_eq:
  "freshDb =
     \<lparr>closed = False, faults = [], fts5 = None, tbl = Some [], seq = 0, learnings_fts = None,
      triggers = [], issued = [CreateLearnings, CreateFts]\<rparr>"
  by (simp add: freshDb_def NewSQLiteBackend_def migrate_def ftsStatements_def emptyDb_def
      engine_defs)

lemma twoRowsDb_eq:
  "twoRowsDb =
     \<lparr>closed = False, faults = [], fts5 = None,
      tbl = Some [new_row 1 ''technical'' ''uses vim'' ''editor'' 0.9 5 5,
                  new_row 2 ''preferences'' ''likes vim bindings'' [] 0.8 6 6],
      seq = 2, learnings_fts = None, triggers = [],
      issued = [CreateLearnings, CreateFts,
                InsertLearning ''technical'' ''uses vim'' ''editor'' 0.9 5 5,
                InsertLearning ''preferences'' ''likes vim bindings'' [] 0.8 6 6]\<rparr>"
  by (simp add: twoRowsDb_def SQLite_Add_def freshDb_eq engine_defs)

lemmas text_defs = Fields_def is_space_def to_lower_def FormatInt_def natToDec.simps

lemma halfInitDb_eq:
  "halfInitDb =
     \<lparr>closed = False, faults = [], fts5 = Some sampleFts, tbl = Some [], seq = 0,
      learnings_fts = Some [], triggers = [],
      issued = [CreateLearnings, CreateFts, CreateTrigger ''learnings_ai'']\<rparr>"
  by (simp add: halfInitDb_def NewSQLiteBackend_def migrate_def ftsStatements_def emptyDb_def
      engine_defs)

lemma staleDb_eq:
  "staleDb =
     \<lparr>closed = False, faults = [], fts5 = Some sampleFts,
      tbl = Some [new_row 1 ''technical'' ''uses vim'' ''editor'' 0.9 5 5], seq = 1,
      learnings_fts = Some [], triggers = [],
      issued = [CreateLearnings, CreateFts, CreateTrigger ''learnings_ai'',
                InsertLearning ''technical'' ''uses vim'' ''editor'' 0.9 5 5]\<rparr>"
  by (simp add: staleDb_def SQLite_Add_def halfInitDb_eq engine_defs)

lemmas chroma_eval =
  remote_defs Let_def chromaGetToLearnings_def chromaResultsToLearnings_def metaToLearning_def
  stored_learning_def read_meta_def wire_meta_def learning_meta_def asString_def asFloat_def
  asCount_def asTime_def float_to_int_def to_int64_def zeroLearning_def sampleLib_def
  text_to_int_def digit_val_def sampleChroma_def emptyRemote_def sampleRecord_def otherRecord_def map_add_def

section \<open>Add\<close>

lemma natToDec_nonempty: "natToDec n \<noteq> []"
  by (subst natToDec.simps) simp

lemma FormatInt_nonempty: "FormatInt i \<noteq> []"
  by (simp add: FormatInt_def natToDec_nonempty)

lemma SQLite_Add_result:
  "SQLite_Add now category content tags confidence d = (Inr l, d1) \<Longrightarrow>
     \<exists>i. l = zeroLearning\<lparr>Learning.ID := FormatInt i, Category := category,
                Learning.Content := content, Tags := tags, Confidence := confidence,
                CreatedAt := now, UpdatedAt := now\<rparr>"
  by (auto simp: SQLite_Add_def split: prod.splits sum.splits)

lemma Chroma_Add_result:
  "Chroma_Add G b now category content tags confidence r = (Inr l, r1) \<Longrightarrow>
     l = zeroLearning\<lparr>Learning.ID := FormatInt now, Category := category,
           Learning.Content := content, Tags := tags, Confidence := confidence,
           CreatedAt := now, UpdatedAt := now\<rparr>"
  unfolding Chroma_Add_def Let_def
  by (simp split: prod.splits sum.splits)

text \<open>
  C7. Whenever \<open>Add\<close> succeeds, on the structured store or on the remote store, the
  Learning it returns has a non-empty id, a use count of 0 and an \<open>updated_at\<close> equal to
  its \<open>created_at\<close>.
\<close>

theorem add_returns_new_learning:
  "(SQLite_Add now category content tags confidence d = (Inr l, d1) \<longrightarrow>
      Learning.ID l \<noteq> [] \<and> UseCount l = 0 \<and> UpdatedAt l = CreatedAt l)
   \<and> (Chroma_Add G b now category content tags confidence r = (Inr l, r1) \<longrightarrow>
      Learning.ID l \<noteq> [] \<and> UseCount l = 0 \<and> UpdatedAt l = CreatedAt l)"
proof (intro conjI impI)
  assume "SQLite_Add now category content tags confidence d = (Inr l, d1)"
  then obtain i where
    "l = zeroLearning\<lparr>Learning.ID := FormatInt i, Category := category,
           Learning.Content := content, Tags := tags, Confidence := confidence,
           CreatedAt := now, UpdatedAt := now\<rparr>"
    using SQLite_Add_result by blast
  then show "Learning.ID l \<noteq> []" "UseCount l = 0" "UpdatedAt l = CreatedAt l"
    by (simp_all add: zeroLearning_def FormatInt_nonempty)
next
  assume "Chroma_Add G b now category content tags confidence r = (Inr l, r1)"
  then have
    "l = zeroLearning\<lparr>Learning.ID := FormatInt now, Category := category,
           Learning.Content := content, Tags := tags, Confidence := confidence,
           CreatedAt := now, UpdatedAt := now\<rparr>"
    by (rule Chroma_Add_result)
  then show "Learning.ID l \<noteq> []" "UseCount l = 0" "UpdatedAt l = CreatedAt l"
    by (simp_all add: zeroLearning_def FormatInt_nonempty)
qed

theorem add_returns_new_learning_witness:
  "(\<exists>l. fst (SQLite_Add 5 ''technical'' ''uses vim'' ''editor'' 0.9
               freshDb) = Inr l
        \<and> Learning.ID l = ''1'' \<and> UseCount l = 0 \<and> UpdatedAt l = CreatedAt l)
   \<and> (\<exists>l. fst (Chroma_Add sampleLib sampleChroma 5 ''technical'' ''uses vim'' ''editor'' 0.9
                  emptyRemote) = Inr l
        \<and> Learning.ID l = ''5'' \<and> UseCount l = 0 \<and> UpdatedAt l = CreatedAt l)"
proof -
  let ?l1 = "\<lparr>Learning.ID = ''1'', Category = ''technical'', Learning.Content = ''uses vim'',
              Tags = ''editor'', Confidence = 0.9, UseCount = 0, CreatedAt = 5, UpdatedAt = 5\<rparr>"
  let ?l2 = "\<lparr>Learning.ID = ''5'', Category = ''technical'', Learning.Content = ''uses vim'',
              Tags = ''editor'', Confidence = 0.9, UseCount = 0, CreatedAt = 5, UpdatedAt = 5\<rparr>"
  let ?s = "SQLite_Add 5 ''technical'' ''uses vim'' ''editor'' 0.9 freshDb"
  let ?c = "Chroma_Add sampleLib sampleChroma 5 ''technical'' ''uses vim'' ''editor'' 0.9
              emptyRemote"
  have s: "fst ?s = Inr ?l1"
    by (simp add: freshDb_eq SQLite_Add_def engine_defs zeroLearning_def FormatInt_def
        natToDec.simps)
  have c: "fst ?c = Inr ?l2"
    by (simp add: Chroma_Add_def Let_def sampleChroma_def emptyRemote_def remote_defs
        zeroLearning_def FormatInt_def natToDec.simps)
  have s': "?s = (Inr ?l1, snd ?s)"
    using s by (simp add: prod_eq_iff)
  have c': "?c = (Inr ?l2, snd ?c)"
    using c by (simp add: prod_eq_iff)
  from add_returns_new_learning [THEN conjunct1, rule_format, OF s']
  have "UseCount ?l1 = 0 \<and> UpdatedAt ?l1 = CreatedAt ?l1"
    by simp
  moreover
  from add_returns_new_learning [THEN conjunct2, rule_format, OF c']
  have "UseCount ?l2 = 0 \<and> UpdatedAt ?l2 = CreatedAt ?l2"
    by simp
  ultimately show ?thesis
    using s c by simp
qed

section \<open>Decoding metadata\<close>

lemma to_int64_range: "- (2 ^ 63) \<le> to_int64 v \<and> to_int64 v < 2 ^ 63"
proof -
  have "0 \<le> (v + 2 ^ 63) mod (2 ^ 64 :: int)" and "(v + 2 ^ 63) mod (2 ^ 64 :: int) < 2 ^ 64"
    by simp_all
  then show ?thesis
    unfolding to_int64_def by simp
qed

lemma float_to_int_range: "- (2 ^ 63) \<le> float_to_int G x \<and> float_to_int G x < 2 ^ 63"
proof -
  define t where "t = (if x < 0 then \<lceil>x\<rceil> else \<lfloor>x\<rfloor>)"
  have e: "float_to_int G x =
             (if - (2 ^ 63) \<le> t \<and> t < 2 ^ 63 then t else to_int64 (float_overflow G x))"
    unfolding float_to_int_def Let_def t_def ..
  show ?thesis
  proof (cases "- (2 ^ 63) \<le> t \<and> t < 2 ^ 63")
    case True
    then show ?thesis unfolding e by (simp only: if_True simp_thms)
  next
    case False
    then show ?thesis unfolding e by (simp only: if_False to_int64_range simp_thms)
  qed
qed

lemma float_to_int_floor:
  assumes "0 \<le> x" and "x < 2 ^ 63"
  shows "float_to_int G x = \<lfloor>x\<rfloor>"
proof -
  have "0 \<le> \<lfloor>x\<rfloor>" using assms(1) by simp
  moreover have "\<lfloor>x\<rfloor> < 2 ^ 63" using assms(2) by (simp add: floor_less_iff)
  ultimately show ?thesis
    using assms(1) by (simp add: float_to_int_def Let_def)
qed

lemma float_to_int_ceiling:
  assumes "- (2 ^ 63) \<le> x" and "x < 0"
  shows "float_to_int G x = \<lceil>x\<rceil>"
proof -
  have "\<lceil>x\<rceil> \<le> 0" using assms(2) by (simp add: ceiling_le_iff)
  moreover have "- (2 ^ 63) \<le> \<lceil>x\<rceil>" using assms(1) by (simp add: le_ceiling_iff)
  ultimately show ?thesis
    using assms(2) by (simp add: float_to_int_def Let_def)
qed

lemma float_to_int_of_int:
  "- (2 ^ 63) \<le> n \<Longrightarrow> n < 2 ^ 63 \<Longrightarrow> float_to_int G (of_int n) = n"
  by (simp add: float_to_int_def Let_def)

lemma from_json_not_GInt: "from_json j \<noteq> GInt n"
  by (cases j) simp_all

lemma meta_ID: "Learning.ID (metaToLearning G i doc meta) = i"
  by (simp add: metaToLearning_def zeroLearning_def Let_def split: option.split)

lemma meta_Content: "Learning.Content (metaToLearning G i doc meta) = doc"
  by (simp add: metaToLearning_def zeroLearning_def Let_def split: option.split)

lemma meta_Category:
  "Category (metaToLearning G i doc meta) =
     (case asString (meta ''category'') of Some v \<Rightarrow> v | None \<Rightarrow> [])"
  by (simp add: metaToLearning_def zeroLearning_def Let_def split: option.split)

lemma meta_Tags:
  "Tags (metaToLearning G i doc meta) =
     (case asString (meta ''tags'') of Some v \<Rightarrow> v | None \<Rightarrow> [])"
  by (simp add: metaToLearning_def zeroLearning_def Let_def split: option.split)

lemma meta_Confidence:
  "Confidence (metaToLearning G i doc meta) =
     (case asFloat (meta ''confidence'') of Some v \<Rightarrow> v | None \<Rightarrow> 0)"
  by (simp add: metaToLearning_def zeroLearning_def Let_def split: option.split)

lemma meta_UseCount:
  "UseCount (metaToLearning G i doc meta) =
     (case asCount G (meta ''use_count'') of Some v \<Rightarrow> v | None \<Rightarrow> 0)"
  by (simp add: metaToLearning_def zeroLearning_def Let_def split: option.split)

lemma meta_CreatedAt:
  "CreatedAt (metaToLearning G i doc meta) =
     (case asTime G (meta ''created_at'') of Some v \<Rightarrow> v | None \<Rightarrow> zeroTime)"
  by (simp add: metaToLearning_def zeroLearning_def Let_def split: option.split)

lemma meta_UpdatedAt:
  "UpdatedAt (metaToLearning G i doc meta) =
     (case asTime G (meta ''updated_at'') of Some v \<Rightarrow> v | None \<Rightarrow> zeroTime)"
  by (simp add: metaToLearning_def zeroLearning_def Let_def split: option.split)

lemma asString_cases:
  "(case asString x of Some v \<Rightarrow> f v | None \<Rightarrow> z) =
     (case x of Some (GString v) \<Rightarrow> f v | _ \<Rightarrow> z)"
  by (simp add: asString_def split: option.split goval.split)

lemma asFloat_cases:
  "(case asFloat x of Some v \<Rightarrow> f v | None \<Rightarrow> z) =
     (case x of Some (GFloat v) \<Rightarrow> f v | _ \<Rightarrow> z)"
  by (simp add: asFloat_def split: option.split goval.split)

lemma asCount_cases:
  "(case asCount G x of Some v \<Rightarrow> v | None \<Rightarrow> 0) =
     (case x of Some (GFloat y) \<Rightarrow> float_to_int G y | Some (GInt n) \<Rightarrow> n | _ \<Rightarrow> 0)"
  by (simp add: asCount_def split: option.split goval.split)

lemma asTime_cases:
  "(case asTime G x of Some t \<Rightarrow> t | None \<Rightarrow> zeroTime) =
     (case x of
        Some (GString v) \<Rightarrow> (case parse_rfc3339 G v of Some t \<Rightarrow> t | None \<Rightarrow> zeroTime)
      | _ \<Rightarrow> zeroTime)"
  by (simp add: asTime_def asString_def split: option.split goval.split)

text \<open>
  A use count read out of a record of the collection is a 64-bit \<open>int\<close>: the metadata of a
  record arrive as JSON, where every number decodes to a \<open>float64\<close>.
\<close>

lemma stored_UseCount_range:
  "- (2 ^ 63) \<le> UseCount (stored_learning G c) \<and> UseCount (stored_learning G c) < 2 ^ 63"
proof (cases "rec_meta c ''use_count''")
  case None
  then show ?thesis
    by (simp add: stored_learning_def meta_UseCount read_meta_def asCount_def)
next
  case (Some j)
  show ?thesis
  proof (cases "from_json j")
    case (GFloat y)
    then show ?thesis
      using float_to_int_range [of G y]
      by (simp add: stored_learning_def meta_UseCount read_meta_def asCount_def Some)
  next
    case (GInt n)
    then show ?thesis using from_json_not_GInt [of j n] by simp
  qed (simp_all add: stored_learning_def meta_UseCount read_meta_def asCount_def Some)
qed

text \<open>
  C9. Decoding a metadata map into a Learning has no failing outcome: for every id,
  document and metadata map \<open>metaToLearning\<close> returns a Learning in which each field is
  decided by its own key alone. The use count is taken from a \<open>float64\<close> as well as from an
  \<open>int\<close>; a key that is absent, holds a value of another type, or holds a string that is
  not a timestamp leaves its field at the zero value. The use count taken from a
  \<open>float64\<close> is that number without its fraction when this fits a 64-bit \<open>int\<close>, so that a
  whole number up to \<open>2 ^ 53\<close> in size, which a \<open>float64\<close> holds exactly, comes back as
  itself; a \<open>float64\<close> out of that range gives no failure either, but some 64-bit \<open>int\<close>
  that the Go implementation chooses. \<open>chromaGetToLearnings\<close> returns one Learning for each
  id of the response, whatever documents and metadata come with it.
\<close>

theorem metadata_decoding_total:
  "Learning.ID (metaToLearning G i doc meta) = i
   \<and> Learning.Content (metaToLearning G i doc meta) = doc
   \<and> Category (metaToLearning G i doc meta) =
       (case meta ''category'' of Some (GString v) \<Rightarrow> v | _ \<Rightarrow> [])
   \<and> Tags (metaToLearning G i doc meta) =
       (case meta ''tags'' of Some (GString v) \<Rightarrow> v | _ \<Rightarrow> [])
   \<and> Confidence (metaToLearning G i doc meta) =
       (case meta ''confidence'' of Some (GFloat v) \<Rightarrow> v | _ \<Rightarrow> 0)
   \<and> UseCount (metaToLearning G i doc meta) =
       (case meta ''use_count'' of
          Some (GFloat x) \<Rightarrow> float_to_int G x
        | Some (GInt n) \<Rightarrow> n
        | _ \<Rightarrow> 0)
   \<and> CreatedAt (metaToLearning G i doc meta) =
       (case meta ''created_at'' of
          Some (GString v) \<Rightarrow> (case parse_rfc3339 G v of Some t \<Rightarrow> t | None \<Rightarrow> zeroTime)
        | _ \<Rightarrow> zeroTime)
   \<and> UpdatedAt (metaToLearning G i doc meta) =
       (case meta ''updated_at'' of
          Some (GString v) \<Rightarrow> (case parse_rfc3339 G v of Some t \<Rightarrow> t | None \<Rightarrow> zeroTime)
        | _ \<Rightarrow> zeroTime)
   \<and> (0 \<le> y \<and> y < 2 ^ 63 \<longrightarrow> float_to_int G y = \<lfloor>y\<rfloor>)
   \<and> (- (2 ^ 63) \<le> y \<and> y < 0 \<longrightarrow> float_to_int G y = \<lceil>y\<rceil>)
   \<and> - (2 ^ 63) \<le> float_to_int G y \<and> float_to_int G y < 2 ^ 63
   \<and> (- (2 ^ 53) \<le> k \<and> k \<le> 2 ^ 53 \<longrightarrow> float_to_int G (of_int k) = k)
   \<and> length (chromaGetToLearnings G resp) = length (IDs resp)"
proof -
  have a: "0 \<le> y \<and> y < 2 ^ 63 \<longrightarrow> float_to_int G y = \<lfloor>y\<rfloor>"
    using float_to_int_floor by blast
  have b: "- (2 ^ 63) \<le> y \<and> y < 0 \<longrightarrow> float_to_int G y = \<lceil>y\<rceil>"
    using float_to_int_ceiling by blast
  have c: "- (2 ^ 53) \<le> k \<and> k \<le> 2 ^ 53 \<longrightarrow> float_to_int G (of_int k) = k"
    by (simp add: float_to_int_of_int)
  have d: "length (chromaGetToLearnings G resp) = length (IDs resp)"
    by (simp add: chromaGetToLearnings_def)
  show ?thesis
    by (intro conjI a b c d float_to_int_range [THEN conjunct1]
        float_to_int_range [THEN conjunct2])
      (simp_all only: meta_ID meta_Content meta_Category meta_Tags meta_Confidence
        meta_UseCount meta_CreatedAt meta_UpdatedAt asString_cases asFloat_cases asCount_cases
        asTime_cases)
qed

theorem metadata_decoding_total_witness:
  "UseCount (metaToLearning sampleLib ''7'' ''uses vim''
               [''use_count'' \<mapsto> GFloat 3, ''category'' \<mapsto> GInt 4, ''created_at'' \<mapsto> GString ''soon'']) = 3
   \<and> UseCount (metaToLearning sampleLib ''7'' ''uses vim'' [''use_count'' \<mapsto> GInt 3]) = 3
   \<and> Category (metaToLearning sampleLib ''7'' ''uses vim''
               [''use_count'' \<mapsto> GFloat 3, ''category'' \<mapsto> GInt 4, ''created_at'' \<mapsto> GString ''soon'']) = []
   \<and> CreatedAt (metaToLearning sampleLib ''7'' ''uses vim''
               [''use_count'' \<mapsto> GFloat 3, ''category'' \<mapsto> GInt 4, ''created_at'' \<mapsto> GString ''soon''])
       = zeroTime
   \<and> Tags (metaToLearning sampleLib ''7'' ''uses vim'' Map.empty) = []
   \<and> float_to_int sampleLib 2.7 = 2
   \<and> float_to_int sampleLib (- 2.7) = - 2
   \<and> float_to_int sampleLib (of_int 3) = 3
   \<and> UseCount (metaToLearning sampleLib ''7'' ''uses vim''
               [''use_count'' \<mapsto> GFloat 1000000000000000000000000000000])
       = - 9223372036854775808"
proof -
  let ?m = "[''use_count'' \<mapsto> GFloat 3, ''category'' \<mapsto> GInt 4, ''created_at'' \<mapsto> GString ''soon'']"
  note t = metadata_decoding_total
  have p: "(0::real) \<le> 2.7 \<and> (2.7::real) < 2 ^ 63" by simp
  have n: "- (2 ^ 63) \<le> (- 2.7 :: real) \<and> (- 2.7 :: real) < 0" by simp
  have w: "- (2 ^ 53) \<le> (3::int) \<and> (3::int) \<le> 2 ^ 53" by simp
  have f1: "float_to_int sampleLib 2.7 = \<lfloor>2.7 :: real\<rfloor>"
    using t [where G = sampleLib and y = "2.7", THEN conjunct2, THEN conjunct2, THEN conjunct2,
             THEN conjunct2, THEN conjunct2, THEN conjunct2, THEN conjunct2, THEN conjunct2,
             THEN conjunct1, THEN mp, OF p] .
  have f2: "float_to_int sampleLib (- 2.7) = \<lceil>- 2.7 :: real\<rceil>"
    using t [where G = sampleLib and y = "- 2.7", THEN conjunct2, THEN conjunct2, THEN conjunct2,
             THEN conjunct2, THEN conjunct2, THEN conjunct2, THEN conjunct2, THEN conjunct2,
             THEN conjunct2, THEN conjunct1, THEN mp, OF n] .
  have f3: "float_to_int sampleLib (of_int 3) = 3"
    using t [where G = sampleLib and k = 3, THEN conjunct2, THEN conjunct2, THEN conjunct2,
             THEN conjunct2, THEN conjunct2, THEN conjunct2, THEN conjunct2, THEN conjunct2,
             THEN conjunct2, THEN conjunct2, THEN conjunct2, THEN conjunct2, THEN conjunct1,
             THEN mp, OF w] .
  have fl: "\<lfloor>2.7 :: real\<rfloor> = 2" by (simp add: floor_eq_iff)
  have ce: "\<lceil>- 2.7 :: real\<rceil> = - 2" by (simp add: ceiling_eq_iff)
  have big: "float_to_int sampleLib 1000000000000000000000000000000 = - 9223372036854775808"
    by (simp add: float_to_int_def to_int64_def sampleLib_def Let_def)
  show ?thesis
    using t [of sampleLib "''7''" "''uses vim''" ?m]
          t [of sampleLib "''7''" "''uses vim''" "[''use_count'' \<mapsto> GInt 3]"]
          t [of sampleLib "''7''" "''uses vim''" Map.empty]
          t [of sampleLib "''7''" "''uses vim''"
               "[''use_count'' \<mapsto> GFloat 1000000000000000000000000000000]"]
          f1 f2 f3 fl ce big
    by (simp add: sampleLib_def text_to_int_def digit_val_def)
qed

section \<open>Tool Router\<close>

lemma tool_names:
  "set (map Name GetTools) =
     {''lookup_context'', ''store_learning'', ''list_learnings'', ''update_learning'',
      ''delete_learning'', ''get_stats''}"
  by (simp add: GetTools_def)

lemma HandleTool_unknown:
  "name \<notin> set (map Name GetTools) \<Longrightarrow>
     HandleTool G b name args s = (errorResult (''unknown tool: '' @ name), s)"
  unfolding tool_names by (simp add: HandleTool_def)

text \<open>
  C10. A \<open>tools/call\<close> request whose parameters decode and whose tool name is none of the
  six tools of the catalogue is answered by \<open>dispatch\<close> with no protocol error: the result
  is the error-flagged text \<open>unknown tool: \<close> followed by the name, and the backend is
  left as it was.
\<close>

theorem unknown_tool_is_tool_level_error:
  assumes "Method req = ''tools/call''"
    and "Unmarshal toolCallParams (Params req) Map.empty = (None, p)"
    and "strF p ''name'' \<notin> set (map Name GetTools)"
  shows "dispatch G srv req s =
           ((ToolCallResult (errorResult (''unknown tool: '' @ strF p ''name'')), None), s)
         \<and> IsError (errorResult (''unknown tool: '' @ strF p ''name''))
         \<and> map Text (ToolResult.Content (errorResult (''unknown tool: '' @ strF p ''name'')))
             = [''unknown tool: '' @ strF p ''name'']"
  using assms by (simp add: dispatch_def handleToolCall_def HandleTool_unknown errorResult_def)

theorem unknown_tool_is_tool_level_error_witness:
  "dispatch sampleLib (NewServer (SQLiteBackend 5))
     \<lparr>JSONRPC = ''2.0'', ID = Some (JInt 1), Method = ''tools/call'',
      Params = Some (JObj [(''name'', JStr ''forget_all''), (''arguments'', JObj [])])\<rparr> freshDb
   = ((ToolCallResult (errorResult ''unknown tool: forget_all''), None), freshDb)"
proof -
  let ?req = "\<lparr>JSONRPC = ''2.0'', ID = Some (JInt 1), Method = ''tools/call'',
      Params = Some (JObj [(''name'', JStr ''forget_all''), (''arguments'', JObj [])])\<rparr>"
  let ?p = "[''name'' \<mapsto> VString ''forget_all'', ''arguments'' \<mapsto> VJson (JObj [])]"
  have 1: "Method ?req = ''tools/call''" by simp
  have 2: "Unmarshal toolCallParams (Params ?req) Map.empty = (None, ?p)"
    by (simp add: json_defs toolCallParams_def)
  have 3: "strF ?p ''name'' \<notin> set (map Name GetTools)"
    by (simp add: strF_def GetTools_def)
  show ?thesis
    using unknown_tool_is_tool_level_error
            [OF 1 2 3, of sampleLib "NewServer (SQLiteBackend 5)" freshDb]
    by (simp add: strF_def)
qed

text \<open>
  C4, as the code has it. When the arguments of \<open>store_learning\<close> decode, the entity is
  persisted by the backend's \<open>Add\<close> under the category given, whether it is one of the six
  recognized categories or not; only an empty category is replaced by \<open>general\<close>.
\<close>

theorem store_learning_category:
  assumes "Unmarshal storeArgs args Map.empty = (None, p)"
  shows "snd (handleStore b args s) =
           snd (Add b (if strF p ''category'' = [] then ''general'' else strF p ''category'')
                  (strF p ''content'') (strF p ''tags'')
                  (if floatF p ''confidence'' = 0 then 0.8 else floatF p ''confidence'') s)"
  using assms by (simp add: handleStore_def Let_def split: prod.splits sum.splits)

theorem store_learning_category_witness:
  "map_option (map col_category)
     (tbl (snd (handleStore (SQLiteBackend 5)
                  (Some (JObj [(''category'', JStr []), (''content'', JStr ''x'')])) freshDb)))
   = Some [''general'']"
proof -
  let ?args = "Some (JObj [(''category'', JStr []), (''content'', JStr ''x'')])"
  let ?p = "[''category'' \<mapsto> VString [], ''content'' \<mapsto> VString ''x'']"
  have 1: "Unmarshal storeArgs ?args Map.empty = (None, ?p)"
    by (simp add: json_defs storeArgs_def)
  show ?thesis
    using store_learning_category [OF 1, of "SQLiteBackend 5" freshDb]
    by (simp add: strF_def floatF_def backend_defs freshDb_eq engine_defs)
qed

text \<open>
  C4, as the claim has it, fails: \<open>bogus\<close> is none of the six categories, and
  \<open>store_learning\<close> persists a row of category \<open>bogus\<close>.
\<close>

theorem store_learning_unrecognized_category:
  "''bogus'' \<notin> set validCategories
   \<and> map_option (map col_category)
       (tbl (snd (HandleTool sampleLib (SQLiteBackend 5) ''store_learning''
                    (Some (JObj [(''category'', JStr ''bogus''), (''content'', JStr ''x'')]))
                    freshDb))) = Some [''bogus'']"
  by (simp add: validCategories_def HandleTool_def handleStore_def json_defs storeArgs_def
      backend_defs freshDb_eq engine_defs Let_def)

text \<open>
  C5, as the code has it. When the arguments of \<open>lookup_context\<close>, \<open>store_learning\<close>,
  \<open>update_learning\<close> or \<open>delete_learning\<close> fail to decode, the tool returns an
  error-flagged text with the decoder's message and does not touch the backend, and
  \<open>handleToolCall\<close> returns every tool result without a protocol error. \<open>list_learnings\<close>
  is different: whether or not its arguments decoded, it lists with what the decoder left
  in the struct, and its result is not error-flagged when the listing succeeds. \<open>get_stats\<close>
  does not decode its arguments.
\<close>

theorem decode_failure_is_tool_error:
  "(Unmarshal lookupArgs args Map.empty = (Some err, p) \<longrightarrow>
      HandleTool G b ''lookup_context'' args s = (errorResult (''invalid arguments: '' @ err), s))
   \<and> (Unmarshal storeArgs args Map.empty = (Some err, p) \<longrightarrow>
      HandleTool G b ''store_learning'' args s = (errorResult (''invalid arguments: '' @ err), s))
   \<and> (Unmarshal updateArgs args Map.empty = (Some err, p) \<longrightarrow>
      HandleTool G b ''update_learning'' args s = (errorResult (''invalid arguments: '' @ err), s))
   \<and> (Unmarshal deleteArgs args Map.empty = (Some err, p) \<longrightarrow>
      HandleTool G b ''delete_learning'' args s = (errorResult (''invalid arguments: '' @ err), s))
   \<and> IsError (errorResult (''invalid arguments: '' @ err))
   \<and> (Unmarshal toolCallParams params Map.empty = (None, q) \<longrightarrow>
      fst (handleToolCall G srv params s)
        = (ToolCallResult
             (fst (HandleTool G (backend srv) (strF q ''name'') (jsonF q ''arguments'') s)), None))
   \<and> (Unmarshal listArgs args Map.empty = (e, p)
        \<and> List b (strF p ''category'') (if intF p ''limit'' \<le> 0 then 50 else intF p ''limit'') s
            = (Inr ls, s1) \<longrightarrow>
      \<not> IsError (fst (HandleTool G b ''list_learnings'' args s)))
   \<and> HandleTool G b ''get_stats'' args s = handleStats b s"
  by (simp add: HandleTool_def handleLookup_def handleStore_def handleUpdate_def handleDelete_def
      handleToolCall_def handleList_def errorResult_def textResult_def Let_def split: prod.splits)

theorem decode_failure_is_tool_error_witness:
  "HandleTool sampleLib (SQLiteBackend 5) ''lookup_context'' (Some (JStr ''oops'')) freshDb
     = (errorResult ''invalid arguments: json: cannot unmarshal string into Go value of type struct'',
        freshDb)
   \<and> HandleTool sampleLib (SQLiteBackend 5) ''store_learning'' (Some (JStr ''oops'')) freshDb
     = (errorResult ''invalid arguments: json: cannot unmarshal string into Go value of type struct'',
        freshDb)
   \<and> HandleTool sampleLib (SQLiteBackend 5) ''update_learning'' (Some (JStr ''oops'')) freshDb
     = (errorResult ''invalid arguments: json: cannot unmarshal string into Go value of type struct'',
        freshDb)
   \<and> HandleTool sampleLib (SQLiteBackend 5) ''delete_learning'' (Some (JStr ''oops'')) freshDb
     = (errorResult ''invalid arguments: json: cannot unmarshal string into Go value of type struct'',
        freshDb)
   \<and> fst (handleToolCall sampleLib (NewServer (SQLiteBackend 5))
            (Some (JObj [(''name'', JStr ''delete_learning''), (''arguments'', JStr ''oops'')]))
            freshDb)
     = (ToolCallResult
          (errorResult ''invalid arguments: json: cannot unmarshal string into Go value of type struct''),
        None)
   \<and> \<not> IsError (fst (HandleTool sampleLib (SQLiteBackend 5) ''list_learnings''
                       (Some (JObj [(''limit'', JInt 3)])) freshDb))"
proof -
  let ?e = "''json: cannot unmarshal string into Go value of type struct''"
  let ?b = "SQLiteBackend 5"
  let ?q = "[''name'' \<mapsto> VString ''delete_learning'', ''arguments'' \<mapsto> VJson (JStr ''oops'')]"
  have u: "Unmarshal lookupArgs (Some (JStr ''oops'')) Map.empty = (Some ?e, Map.empty)"
    "Unmarshal storeArgs (Some (JStr ''oops'')) Map.empty = (Some ?e, Map.empty)"
    "Unmarshal updateArgs (Some (JStr ''oops'')) Map.empty = (Some ?e, Map.empty)"
    "Unmarshal deleteArgs (Some (JStr ''oops'')) Map.empty = (Some ?e, Map.empty)"
    by (simp_all add: Unmarshal_def json_type_name_def)
  have q: "Unmarshal toolCallParams
             (Some (JObj [(''name'', JStr ''delete_learning''), (''arguments'', JStr ''oops'')]))
             Map.empty = (None, ?q)"
    by (simp add: json_defs toolCallParams_def)
  have l: "Unmarshal listArgs (Some (JObj [(''limit'', JInt 3)])) Map.empty
             = (None, [''limit'' \<mapsto> VInt 3])
           \<and> List ?b (strF [''limit'' \<mapsto> VInt 3] ''category'')
               (if intF [''limit'' \<mapsto> VInt 3] ''limit'' \<le> 0 then 50
                else intF [''limit'' \<mapsto> VInt 3] ''limit'') freshDb
             = (Inr [], freshDb\<lparr>issued := issued freshDb @ [SelectAll None 3]\<rparr>)"
    by (simp add: json_defs listArgs_def backend_defs freshDb_eq engine_defs)
  note t = decode_failure_is_tool_error [of "Some (JStr ''oops'')" ?e Map.empty sampleLib ?b freshDb]
  note t2 = decode_failure_is_tool_error [of _ _ _ sampleLib ?b freshDb _ ?q "NewServer ?b"]
  note t3 = decode_failure_is_tool_error [of "Some (JObj [(''limit'', JInt 3)])" _ "[''limit'' \<mapsto> VInt 3]" sampleLib ?b
                   freshDb _ _ _ None "[]"
                   "freshDb\<lparr>issued := issued freshDb @ [SelectAll None 3]\<rparr>"]
  have a: "HandleTool sampleLib ?b ''lookup_context'' (Some (JStr ''oops'')) freshDb
             = (errorResult (''invalid arguments: '' @ ?e), freshDb)"
    using t u by blast
  have b: "HandleTool sampleLib ?b ''store_learning'' (Some (JStr ''oops'')) freshDb
             = (errorResult (''invalid arguments: '' @ ?e), freshDb)"
    using t u by blast
  have c: "HandleTool sampleLib ?b ''update_learning'' (Some (JStr ''oops'')) freshDb
             = (errorResult (''invalid arguments: '' @ ?e), freshDb)"
    using t u by blast
  have d: "HandleTool sampleLib ?b ''delete_learning'' (Some (JStr ''oops'')) freshDb
             = (errorResult (''invalid arguments: '' @ ?e), freshDb)"
    using t u by blast
  have e: "fst (handleToolCall sampleLib (NewServer ?b)
            (Some (JObj [(''name'', JStr ''delete_learning''), (''arguments'', JStr ''oops'')]))
            freshDb)
           = (ToolCallResult
               (fst (HandleTool sampleLib (backend (NewServer ?b)) (strF ?q ''name'')
                       (jsonF ?q ''arguments'') freshDb)), None)"
    using t2 q by blast
  have f: "\<not> IsError (fst (HandleTool sampleLib ?b ''list_learnings''
                       (Some (JObj [(''limit'', JInt 3)])) freshDb))"
    using t3 l by blast
  show ?thesis
    using a b c d e f by (simp add: strF_def jsonF_def NewServer_def)
qed

text \<open>
  C5, as the claim has it, fails for \<open>list_learnings\<close>: the JSON string \<open>"oops"\<close> does not
  decode into the argument struct, and the tool answers with the plain text of an empty
  listing.
\<close>

theorem list_learnings_ignores_decode_failure:
  "fst (Unmarshal listArgs (Some (JStr ''oops'')) Map.empty) \<noteq> None
   \<and> fst (HandleTool sampleLib (SQLiteBackend 5) ''list_learnings'' (Some (JStr ''oops'')) freshDb)
       = textResult ''No learnings stored yet.''
   \<and> \<not> IsError (textResult ''No learnings stored yet.'')"
  by (simp add: HandleTool_def handleList_def json_defs listArgs_def json_type_name_def
      backend_defs freshDb_eq engine_defs Let_def textResult_def)

section \<open>Protocol Dispatcher\<close>

lemma batchLoop_responses:
  "fst (batchLoop G srv reqs acc s) =
     acc @ map (\<lambda>(req, res, rpcErr). respond req res rpcErr)
             (filter (\<lambda>(req, res, rpcErr). ID req \<noteq> None) (dispatched G srv reqs s))"
proof (induction reqs arbitrary: acc s)
  case Nil
  then show ?case by simp
next
  case (Cons req reqs)
  show ?case
  proof (cases "dispatch G srv req s")
    case (Pair out s1)
    obtain res rpcErr where out: "out = (res, rpcErr)" by (cases out)
    show ?thesis
      using Pair out Cons.IH by simp
  qed
qed

text \<open>
  C6, as the code has it. A single request without an identifier gets no response body
  (status 202) when \<open>dispatch\<close> succeeds; when \<open>dispatch\<close> returns an error, the error
  response is written, with no id. In a batch, the responses are those of the requests
  that carry an identifier, in the order of the requests; a request without an identifier
  is dispatched and its response left out, whether it succeeded or not.
\<close>

theorem notification_responses:
  "(unmarshal_request G (take (2 ^ 20) sent) = Inr req
      \<and> take 1 (trimSpace (take (2 ^ 20) sent)) \<noteq> ''[''
      \<and> ID req = None
      \<and> dispatch G srv req s = ((res, rpcErr), s1) \<longrightarrow>
    handlePost G srv (Inr sent) s =
      (case rpcErr of
         None \<Rightarrow> \<lparr>Status = 202, ContentType = [], Body = NoBody\<rparr>
       | Some e \<Rightarrow>
           \<lparr>Status = 200, ContentType = ''application/json'',
            Body = One \<lparr>RespJSONRPC = ''2.0'', RespID = None, Result = NilResult,
                        Error = Some e\<rparr>\<rparr>,
       s1))
   \<and> (unmarshal_requests G text = Inr reqs \<longrightarrow>
    fst (handleBatch G srv text s) =
      \<lparr>Status = 200, ContentType = ''application/json'',
       Body = Many (map (\<lambda>(req, res, rpcErr). respond req res rpcErr)
                      (filter (\<lambda>(req, res, rpcErr). ID req \<noteq> None)
                         (dispatched G srv reqs s)))\<rparr>)"
proof (intro conjI impI)
  assume a: "unmarshal_request G (take (2 ^ 20) sent) = Inr req
      \<and> take 1 (trimSpace (take (2 ^ 20) sent)) \<noteq> ''[''
      \<and> ID req = None
      \<and> dispatch G srv req s = ((res, rpcErr), s1)"
  then show "handlePost G srv (Inr sent) s =
      (case rpcErr of
         None \<Rightarrow> \<lparr>Status = 202, ContentType = [], Body = NoBody\<rparr>
       | Some e \<Rightarrow>
           \<lparr>Status = 200, ContentType = ''application/json'',
            Body = One \<lparr>RespJSONRPC = ''2.0'', RespID = None, Result = NilResult,
                        Error = Some e\<rparr>\<rparr>,
       s1)"
    by (simp add: handlePost_def Let_def respond_def split: option.split)
next
  assume b: "unmarshal_requests G text = Inr reqs"
  have "handleBatch G srv text s =
          (\<lparr>Status = 200, ContentType = ''application/json'',
            Body = Many (fst (batchLoop G srv reqs [] s))\<rparr>, snd (batchLoop G srv reqs [] s))"
    using b by (simp add: handleBatch_def split: prod.splits)
  then show "fst (handleBatch G srv text s) =
      \<lparr>Status = 200, ContentType = ''application/json'',
       Body = Many (map (\<lambda>(req, res, rpcErr). respond req res rpcErr)
                      (filter (\<lambda>(req, res, rpcErr). ID req \<noteq> None)
                         (dispatched G srv reqs s)))\<rparr>"
    by (simp add: batchLoop_responses)
qed

theorem notification_responses_witness:
  \<open>handlePost sampleLib (NewServer (SQLiteBackend 5)) (Inr ''{"jsonrpc":"2.0","method":"ping"}'')
     freshDb
     = (\<lparr>Status = 202, ContentType = [], Body = NoBody\<rparr>, freshDb)
   \<and> fst (handleBatch sampleLib (NewServer (SQLiteBackend 5))
            ''[{"jsonrpc":"2.0","method":"nope"},{"jsonrpc":"2.0","id":1,"method":"ping"},{"jsonrpc":"2.0","id":2,"method":"nope"}]''
            freshDb)
     = \<lparr>Status = 200, ContentType = ''application/json'',
        Body = Many
                 [\<lparr>RespJSONRPC = ''2.0'', RespID = Some (JInt 1), Result = EmptyMap, Error = None\<rparr>,
                  \<lparr>RespJSONRPC = ''2.0'', RespID = Some (JInt 2), Result = NilResult,
                   Error = Some \<lparr>Code = - 32601, Message = ''method not found: nope''\<rparr>\<rparr>]\<rparr>\<close>
proof -
  let ?srv = \<open>NewServer (SQLiteBackend 5)\<close>
  let ?ping = \<open>''{"jsonrpc":"2.0","method":"ping"}''\<close>
  let ?batch = \<open>''[{"jsonrpc":"2.0","method":"nope"},{"jsonrpc":"2.0","id":1,"method":"ping"},{"jsonrpc":"2.0","id":2,"method":"nope"}]''\<close>
  let ?req = \<open>\<lparr>JSONRPC = ''2.0'', ID = None, Method = ''ping'', Params = None\<rparr>\<close>
  let ?reqs = \<open>[\<lparr>JSONRPC = ''2.0'', ID = None, Method = ''nope'', Params = None\<rparr>,
                \<lparr>JSONRPC = ''2.0'', ID = Some (JInt 1), Method = ''ping'', Params = None\<rparr>,
                \<lparr>JSONRPC = ''2.0'', ID = Some (JInt 2), Method = ''nope'', Params = None\<rparr>]\<close>
  have single: \<open>unmarshal_request sampleLib (take (2 ^ 20) ?ping) = Inr ?req
      \<and> take 1 (trimSpace (take (2 ^ 20) ?ping)) \<noteq> ''[''
      \<and> ID ?req = None
      \<and> dispatch sampleLib ?srv ?req freshDb = ((EmptyMap, None), freshDb)\<close>
    by (simp add: unmarshal_request_def sampleLib_def sampleTexts_def json_defs
        requestFields_def to_Request_def dispatch_def)
  have batch: \<open>unmarshal_requests sampleLib ?batch = Inr ?reqs\<close>
    by (simp add: unmarshal_requests_def sampleLib_def sampleTexts_def json_defs
        requestFields_def to_Request_def)
  note t = notification_responses
             [of sampleLib ?ping ?req ?srv freshDb EmptyMap None freshDb ?batch ?reqs]
  have 1: \<open>handlePost sampleLib ?srv (Inr ?ping) freshDb
             = (\<lparr>Status = 202, ContentType = [], Body = NoBody\<rparr>, freshDb)\<close>
    using t single by simp
  have 2: \<open>fst (handleBatch sampleLib ?srv ?batch freshDb) =
      \<lparr>Status = 200, ContentType = ''application/json'',
       Body = Many (map (\<lambda>(req, res, rpcErr). respond req res rpcErr)
                      (filter (\<lambda>(req, res, rpcErr). ID req \<noteq> None)
                         (dispatched sampleLib ?srv ?reqs freshDb)))\<rparr>\<close>
    using t batch by blast
  show ?thesis
    unfolding 1 2 by (simp add: dispatch_def respond_def)
qed

text \<open>
  C6, as the claim has it, fails for a single request: a request without an identifier
  for the unknown method \<open>nope\<close> is answered with status 200 and an error response.
\<close>

theorem failed_notification_gets_response:
  \<open>handlePost sampleLib (NewServer (SQLiteBackend 5)) (Inr ''{"jsonrpc":"2.0","method":"nope"}'')
     freshDb =
   (\<lparr>Status = 200, ContentType = ''application/json'',
     Body = One \<lparr>RespJSONRPC = ''2.0'', RespID = None, Result = NilResult,
                 Error = Some \<lparr>Code = - 32601, Message = ''method not found: nope''\<rparr>\<rparr>\<rparr>,
    freshDb)\<close>
  by (simp add: handlePost_def Let_def unmarshal_request_def sampleLib_def sampleTexts_def
      json_defs requestFields_def to_Request_def dispatch_def respond_def)

section \<open>The category filter\<close>

lemma limit_rows_subset: "set (limit_rows n xs) \<subseteq> set xs"
  by (auto simp: limit_rows_def dest: in_set_takeD)

lemma selected_row:
  "x \<in> set (limit_rows n (sort_key k (filter P xs))) \<Longrightarrow> P x"
  using limit_rows_subset [of n "sort_key k (filter P xs)"] by auto

lemma joined_row:
  assumes "x \<in> set (limit_rows n (map snd (sort_key k (filter P xs))))"
  shows "\<exists>f. P (f, x)"
proof -
  have "x \<in> snd ` {y \<in> set xs. P y}"
    using assms limit_rows_subset [of n "map snd (sort_key k (filter P xs))"] by auto
  then obtain y where "P y" and "x = snd y" by auto
  then have "P (fst y, x)" by simp
  then show ?thesis by blast
qed

lemma Query_category:
  assumes "Query st d = (Inr rows, d1)"
    and "st = SelectFts e (Some c) n \<or> st = SelectLike ps (Some c) n \<or> st = SelectAll (Some c) n"
  shows "\<forall>r \<in> set (fetched rows). col_category r = c"
  using assms
  by (auto simp: Query_def Let_def category_is_def delivered_def split: option.splits if_splits
      dest!: selected_row joined_row)

lemma scan_category:
  "\<forall>r \<in> set (fetched rows). col_category r = c \<Longrightarrow>
     \<forall>l \<in> set (scanLearnings rows). Category l = c"
  by (auto simp: scanLearnings_def)

lemma SQLite_Search_category:
  assumes "category \<noteq> []" and "SQLite_Search q category n d = (Inr ls, d1)"
  shows "\<forall>l \<in> set ls. Category l = category"
proof -
  let ?lim = "if n \<le> 0 then 10 else n"
  let ?fts = "SelectFts (Join (Fields q) '' OR '') (Some category) ?lim"
  let ?like = "SelectLike (map (\<lambda>w. ''%'' @ w @ ''%'') (Fields q)) (Some category) ?lim"
  obtain out da where fts: "Query ?fts d = (out, da)" by (cases "Query ?fts d")
  show ?thesis
  proof (cases out)
    case (Inr rows)
    then have "ls = scanLearnings rows"
      using assms fts by (simp add: SQLite_Search_def category_arg_def Let_def)
    moreover have "\<forall>r \<in> set (fetched rows). col_category r = category"
      using Query_category [of ?fts d rows da] fts Inr by simp
    ultimately show ?thesis using scan_category by blast
  next
    case (Inl err)
    obtain out2 db where like: "Query ?like da = (out2, db)" by (cases "Query ?like da")
    then obtain rows where rows: "out2 = Inr rows" "ls = scanLearnings rows"
      using assms fts Inl by (cases out2) (simp_all add: SQLite_Search_def category_arg_def Let_def)
    have "\<forall>r \<in> set (fetched rows). col_category r = category"
      using Query_category [of ?like da rows db] like rows by simp
    then show ?thesis using rows scan_category by blast
  qed
qed

lemma SQLite_List_category:
  assumes "category \<noteq> []" and "SQLite_List category n d = (Inr ls, d1)"
  shows "\<forall>l \<in> set ls. Category l = category"
proof -
  let ?lim = "if n \<le> 0 then 50 else n"
  let ?all = "SelectAll (Some category) ?lim"
  obtain out da where q: "Query ?all d = (out, da)" by (cases "Query ?all d")
  then obtain rows where rows: "out = Inr rows" "ls = scanLearnings rows"
    using assms by (cases out) (simp_all add: SQLite_List_def category_arg_def Let_def)
  have "\<forall>r \<in> set (fetched rows). col_category r = category"
    using Query_category [of ?all d rows da] q rows by simp
  then show ?thesis using rows scan_category by blast
qed

lemma stored_category:
  "where_holds (Some (''category'', c)) x \<Longrightarrow> Category (stored_learning G x) = c"
  by (simp add: where_holds_def stored_learning_def meta_Category read_meta_def asString_def)

lemma results_of_hits:
  "chromaResultsToLearnings G (map rec_id hits) (map rec_document hits)
     (map (\<lambda>c. read_meta (rec_meta c)) hits) = Some (map (stored_learning G) hits)"
  by (auto simp: chromaResultsToLearnings_def stored_learning_def intro!: nth_equalityI)

lemma get_of_hits:
  "chromaGetToLearnings G (get_response hits) = map (stored_learning G) hits"
  by (auto simp: chromaGetToLearnings_def get_response_def stored_learning_def
      intro!: nth_equalityI)

lemma post_query:
  assumes "post (QueryReq texts embs n w inc) r = (Inr data, r2)"
  shows "\<exists>hits. set hits \<subseteq> {c \<in> set (records r). where_holds w c}
           \<and> decode_query data =
               Inr \<lparr>QIDs = [map rec_id hits], QDocuments = [map rec_document hits],
                    QMetadatas = [map (\<lambda>c. read_meta (rec_meta c)) hits],
                    QDistances = [map (distance r texts embs) hits]\<rparr>"
proof -
  let ?hits = "take (nat n) (sort_key (distance r texts embs) (filter (where_holds w) (records r)))"
  have "set ?hits \<subseteq> {c \<in> set (records r). where_holds w c}"
    using set_take_subset [of "nat n" "sort_key (distance r texts embs) (filter (where_holds w) (records r))"]
    by auto
  moreover have "decode_query data =
               Inr \<lparr>QIDs = [map rec_id ?hits], QDocuments = [map rec_document ?hits],
                    QMetadatas = [map (\<lambda>c. read_meta (rec_meta c)) ?hits],
                    QDistances = [map (distance r texts embs) ?hits]\<rparr>"
    using assms by (auto simp: post_def Let_def decode_query_def split: if_splits)
  ultimately show ?thesis by blast
qed

lemma post_get:
  assumes "post (GetReq ids w n inc) r = (Inr data, r2)"
  shows "\<exists>hits. set hits \<subseteq> {c \<in> set (records r). where_holds w c}
           \<and> decode_get data = Inr (get_response hits)"
proof -
  let ?all = "filter (\<lambda>c. (ids = [] \<or> rec_id c \<in> set ids) \<and> where_holds w c) (records r)"
  let ?hits = "if n > 0 then take (nat n) ?all else ?all"
  have "set ?hits \<subseteq> {c \<in> set (records r). where_holds w c}"
    using set_take_subset [of "nat n" ?all] by auto
  moreover have "decode_get data = Inr (get_response ?hits)"
    using assms by (auto simp: post_def Let_def decode_get_def split: if_splits)
  ultimately show ?thesis by blast
qed

lemma Chroma_Search_category:
  assumes "category \<noteq> []" and "Chroma_Search G b q category n r = (Some (Inr ls), r1)"
  shows "\<forall>l \<in> set ls. Category l = category"
proof -
  let ?lim = "if n \<le> 0 then 10 else n"
  let ?w = "Some (''category'', category)"
  let ?inc = "[''documents'', ''metadatas'', ''distances'']"
  obtain texts embs ra where pre:
    "(if EmbeddingModel (cfg b) \<noteq> []
             then (case embed b q r of
                     (Inl err, r0) \<Rightarrow> ([q], [], r0)
                   | (Inr emb, r0) \<Rightarrow> ([], [emb], r0))
             else ([q], [], r)) = (texts, embs, ra)"
    by (cases "(if EmbeddingModel (cfg b) \<noteq> []
             then (case embed b q r of
                     (Inl err, r0) \<Rightarrow> ([q], [], r0)
                   | (Inr emb, r0) \<Rightarrow> ([], [emb], r0))
             else ([q], [], r))") blast
  obtain out rb where p: "post (QueryReq texts embs ?lim ?w ?inc) ra = (out, rb)"
    by (cases "post (QueryReq texts embs ?lim ?w ?inc) ra")
  have unf: "Chroma_Search G b q category n r =
      (case out of
         Inl err \<Rightarrow> (Some (Inl err), rb)
       | Inr data \<Rightarrow>
             (case decode_query data of
                Inl err \<Rightarrow> (Some (Inl (''parse query response: '' @ err)), rb)
              | Inr resp \<Rightarrow>
                  (case QIDs resp of
                     [] \<Rightarrow> (Some (Inr []), rb)
                   | ids # _ \<Rightarrow>
                       if length ids = 0 then (Some (Inr []), rb)
                       else (case (QDocuments resp, QMetadatas resp) of
                               (docs # _, metas # _) \<Rightarrow>
                                 (map_option Inr (chromaResultsToLearnings G ids docs metas), rb)
                             | _ \<Rightarrow> (None, rb)))))"
  proof -
    have c: "(category \<noteq> []) = True" using assms(1) by simp
    show ?thesis
      by (simp only: Chroma_Search_def Let_def category_where_def c if_True pre p prod.case)
  qed
  show ?thesis
  proof (cases out)
    case (Inl err)
    then show ?thesis using unf assms(2) by simp
  next
    case (Inr data)
    then obtain hits where hits: "set hits \<subseteq> {c \<in> set (records ra). where_holds ?w c}"
      and dec: "decode_query data =
               Inr \<lparr>QIDs = [map rec_id hits], QDocuments = [map rec_document hits],
                    QMetadatas = [map (\<lambda>c. read_meta (rec_meta c)) hits],
                    QDistances = [map (distance ra texts embs) hits]\<rparr>"
      using post_query p by blast
    have "ls = [] \<or> ls = map (stored_learning G) hits"
      using unf assms(2) Inr dec by (auto simp: results_of_hits split: if_splits)
    then show ?thesis
      using hits stored_category by fastforce
  qed
qed

lemma Chroma_List_category:
  assumes "category \<noteq> []" and "Chroma_List G b category n r = (Inr ls, r1)"
  shows "\<forall>l \<in> set ls. Category l = category"
proof -
  let ?lim = "if n \<le> 0 then 50 else n"
  let ?w = "Some (''category'', category)"
  let ?req = "GetReq [] ?w ?lim [''documents'', ''metadatas'']"
  obtain out rb where p: "post ?req r = (out, rb)" by (cases "post ?req r")
  have unf: "Chroma_List G b category n r =
      (case out of
         Inl err \<Rightarrow> (Inl err, rb)
       | Inr data \<Rightarrow>
             (case decode_get data of
                Inl err \<Rightarrow> (Inl err, rb)
              | Inr resp \<Rightarrow> (Inr (sortByUpdated (chromaGetToLearnings G resp)), rb)))"
    using assms(1) p by (simp add: Chroma_List_def Let_def category_where_def)
  show ?thesis
  proof (cases out)
    case (Inl err)
    then show ?thesis using unf assms(2) by simp
  next
    case (Inr data)
    then obtain hits where hits: "set hits \<subseteq> {c \<in> set (records r). where_holds ?w c}"
      and dec: "decode_get data = Inr (get_response hits)"
      using post_get p by blast
    have "ls = sortByUpdated (map (stored_learning G) hits)"
      using unf assms(2) Inr dec by (simp add: get_of_hits)
    then show ?thesis
      using hits stored_category by (auto simp: sortByUpdated_def)
  qed
qed


text \<open>
  C8. With a non-empty category filter, every Learning that \<open>Search\<close> or \<open>List\<close> returns,
  on the structured store or on the remote store, has exactly that category. The
  structured store applies the filter in the \<open>WHERE\<close> clause of each of its three
  selections, and the remote store applies the \<open>where\<close> object of the request; the
  backends pass on what the stores return.
\<close>

theorem category_filter:
  assumes "category \<noteq> []"
  shows "(SQLite_Search q category n d = (Inr ls, d1) \<longrightarrow> (\<forall>l \<in> set ls. Category l = category))
       \<and> (SQLite_List category n d = (Inr ls, d1) \<longrightarrow> (\<forall>l \<in> set ls. Category l = category))
       \<and> (Chroma_Search G b q category n r = (Some (Inr ls), r1) \<longrightarrow>
            (\<forall>l \<in> set ls. Category l = category))
       \<and> (Chroma_List G b category n r = (Inr ls, r1) \<longrightarrow>
            (\<forall>l \<in> set ls. Category l = category))"
proof (intro conjI impI)
  assume h: "SQLite_Search q category n d = (Inr ls, d1)"
  show "\<forall>l \<in> set ls. Category l = category"
    by (rule SQLite_Search_category [OF assms h])
next
  assume h: "SQLite_List category n d = (Inr ls, d1)"
  show "\<forall>l \<in> set ls. Category l = category"
    by (rule SQLite_List_category [OF assms h])
next
  assume h: "Chroma_Search G b q category n r = (Some (Inr ls), r1)"
  show "\<forall>l \<in> set ls. Category l = category"
    by (rule Chroma_Search_category [OF assms h])
next
  assume h: "Chroma_List G b category n r = (Inr ls, r1)"
  show "\<forall>l \<in> set ls. Category l = category"
    by (rule Chroma_List_category [OF assms h])
qed

theorem category_filter_witness:
  "fst (SQLite_Search ''vim'' ''technical'' 0 twoRowsDb)
     = Inr [\<lparr>Learning.ID = ''1'', Category = ''technical'', Learning.Content = ''uses vim'',
             Tags = ''editor'', Confidence = 0.9, UseCount = 0, CreatedAt = 5, UpdatedAt = 5\<rparr>]
   \<and> fst (SQLite_List ''technical'' 0 twoRowsDb)
     = Inr [\<lparr>Learning.ID = ''1'', Category = ''technical'', Learning.Content = ''uses vim'',
             Tags = ''editor'', Confidence = 0.9, UseCount = 0, CreatedAt = 5, UpdatedAt = 5\<rparr>]
   \<and> fst (Chroma_Search sampleLib sampleChroma ''vim'' ''technical'' 0 twoRecords)
     = Some (Inr [\<lparr>Learning.ID = ''7'', Category = ''technical'', Learning.Content = ''uses vim'',
             Tags = ''editor'', Confidence = 0.9, UseCount = 3, CreatedAt = 5, UpdatedAt = 6\<rparr>])
   \<and> fst (Chroma_List sampleLib sampleChroma ''technical'' 0 twoRecords)
     = Inr [\<lparr>Learning.ID = ''7'', Category = ''technical'', Learning.Content = ''uses vim'',
             Tags = ''editor'', Confidence = 0.9, UseCount = 3, CreatedAt = 5, UpdatedAt = 6\<rparr>]
   \<and> map Category
        [\<lparr>Learning.ID = ''1'', Category = ''technical'', Learning.Content = ''uses vim'',
          Tags = ''editor'', Confidence = 0.9, UseCount = 0, CreatedAt = 5, UpdatedAt = 5\<rparr>,
         \<lparr>Learning.ID = ''7'', Category = ''technical'', Learning.Content = ''uses vim'',
          Tags = ''editor'', Confidence = 0.9, UseCount = 3, CreatedAt = 5, UpdatedAt = 6\<rparr>]
       = [''technical'', ''technical'']"
proof -
  let ?l1 = "\<lparr>Learning.ID = ''1'', Category = ''technical'', Learning.Content = ''uses vim'',
             Tags = ''editor'', Confidence = 0.9, UseCount = 0, CreatedAt = 5, UpdatedAt = 5\<rparr>"
  let ?l7 = "\<lparr>Learning.ID = ''7'', Category = ''technical'', Learning.Content = ''uses vim'',
             Tags = ''editor'', Confidence = 0.9, UseCount = 3, CreatedAt = 5, UpdatedAt = 6\<rparr>"
  let ?ss = "SQLite_Search ''vim'' ''technical'' 0 twoRowsDb"
  let ?sl = "SQLite_List ''technical'' 0 twoRowsDb"
  let ?cs = "Chroma_Search sampleLib sampleChroma ''vim'' ''technical'' 0 twoRecords"
  let ?cl = "Chroma_List sampleLib sampleChroma ''technical'' 0 twoRecords"
  have ne: "''technical'' \<noteq> []" by simp
  have ss: "fst ?ss = Inr [?l1]"
    by (simp add: SQLite_Search_def category_arg_def twoRowsDb_eq engine_defs text_defs
        scanLearnings_def Let_def)
  have sl: "fst ?sl = Inr [?l1]"
    by (simp add: SQLite_List_def category_arg_def twoRowsDb_eq engine_defs text_defs
        scanLearnings_def Let_def)
  have cs: "fst ?cs = Some (Inr [?l7])"
    by (simp add: Chroma_Search_def category_where_def twoRecords_def emptyRemote_def
        sampleRecord_def otherRecord_def sampleChroma_def remote_defs Let_def
        chromaResultsToLearnings_def metaToLearning_def read_meta_def asString_def asFloat_def
        asCount_def asTime_def float_to_int_def zeroLearning_def sampleLib_def text_to_int_def
        digit_val_def)
  have cl: "fst ?cl = Inr [?l7]"
    by (simp add: Chroma_List_def category_where_def twoRecords_def emptyRemote_def
        sampleRecord_def otherRecord_def sampleChroma_def remote_defs Let_def
        chromaGetToLearnings_def sortByUpdated_def metaToLearning_def read_meta_def asString_def
        asFloat_def asCount_def asTime_def float_to_int_def zeroLearning_def sampleLib_def
        text_to_int_def digit_val_def)
  have ss': "?ss = (Inr [?l1], snd ?ss)" using ss by (simp add: prod_eq_iff)
  have sl': "?sl = (Inr [?l1], snd ?sl)" using sl by (simp add: prod_eq_iff)
  have cs': "?cs = (Some (Inr [?l7]), snd ?cs)" using cs by (simp add: prod_eq_iff)
  have cl': "?cl = (Inr [?l7], snd ?cl)" using cl by (simp add: prod_eq_iff)
  note a = category_filter [OF ne, THEN conjunct1, THEN mp, OF ss']
  note b = category_filter [OF ne, THEN conjunct2, THEN conjunct1, THEN mp, OF sl']
  note c = category_filter [OF ne, THEN conjunct2, THEN conjunct2, THEN conjunct1, THEN mp, OF cs']
  note d = category_filter [OF ne, THEN conjunct2, THEN conjunct2, THEN conjunct2, THEN mp, OF cl']
  have "map Category [?l1, ?l7] = [''technical'', ''technical'']"
    using a b c d by simp
  then show ?thesis
    unfolding ss sl cs cl by simp
qed

section \<open>Full-text search and its fallback\<close>

lemma issued_Query: "issued (snd (Query st d)) = issued d @ [st]"
  by (simp add: Query_def receive_def Let_def split: option.split stmt.split)

lemma issued_Exec: "issued (snd (Exec st d)) = issued d @ [st]"
  by (simp add: Exec_def receive_def Let_def
      split: option.split stmt.split sum.split)

lemma issued_state_after: "issued (state_after sts d) = issued d @ sts"
  by (induction sts arbitrary: d) (simp_all add: issued_Exec)

lemma ftsLoop_all_succeed: "all_succeed sts d \<Longrightarrow> ftsLoop sts d = state_after sts d"
proof (induction sts arbitrary: d)
  case Nil
  show ?case by simp
next
  case (Cons st rest)
  obtain out d1 where e: "Exec st d = (out, d1)" by (cases "Exec st d")
  show ?case
  proof (cases out)
    case (Inl err)
    then show ?thesis using Cons.prems e by simp
  next
    case (Inr res)
    then have "all_succeed rest d1" using Cons.prems e by simp
    then show ?thesis using Cons.IH [of d1] e Inr by simp
  qed
qed

lemma ftsLoop_first_failure:
  assumes "k < length sts" and "all_succeed (take k sts) d"
    and "\<not> all_succeed (take (Suc k) sts) d"
  shows "ftsLoop sts d = state_after (take (Suc k) sts) d"
  using assms
proof (induction sts arbitrary: d k)
  case Nil
  then show ?case by simp
next
  case (Cons st rest)
  obtain out d1 where e: "Exec st d = (out, d1)" by (cases "Exec st d")
  show ?case
  proof (cases k)
    case 0
    then have "\<not> all_succeed [st] d" using Cons.prems(3) by simp
    then obtain err where "out = Inl err" using e by (cases out) simp_all
    then show ?thesis using e 0 by simp
  next
    case (Suc j)
    have a: "all_succeed (st # take j rest) d" using Cons.prems(2) Suc by simp
    then obtain res where o: "out = Inr res" using e by (cases out) simp_all
    have a1: "all_succeed (take j rest) d1" using a e o by simp
    have "\<not> all_succeed (st # take (Suc j) rest) d" using Cons.prems(3) Suc by simp
    then have n1: "\<not> all_succeed (take (Suc j) rest) d1" using e o by simp
    have "j < length rest" using Cons.prems(1) Suc by simp
    then have "ftsLoop rest d1 = state_after (take (Suc j) rest) d1"
      using Cons.IH a1 n1 by blast
    then show ?thesis using e o Suc by simp
  qed
qed

lemma first_failure:
  "\<not> all_succeed sts d \<Longrightarrow>
     \<exists>k < length sts. all_succeed (take k sts) d \<and> \<not> all_succeed (take (Suc k) sts) d"
proof (induction sts arbitrary: d)
  case Nil
  then show ?case by simp
next
  case (Cons st rest)
  obtain out d1 where e: "Exec st d = (out, d1)" by (cases "Exec st d")
  show ?case
  proof (cases out)
    case (Inl err)
    then have "all_succeed (take 0 (st # rest)) d \<and> \<not> all_succeed (take (Suc 0) (st # rest)) d"
      using e by simp
    then show ?thesis by (intro exI [of _ 0]) simp
  next
    case (Inr res)
    then have "\<not> all_succeed rest d1" using Cons.prems e by simp
    then obtain j where j: "j < length rest" "all_succeed (take j rest) d1"
        "\<not> all_succeed (take (Suc j) rest) d1"
      using Cons.IH by blast
    then have "Suc j < length (st # rest) \<and> all_succeed (take (Suc j) (st # rest)) d
               \<and> \<not> all_succeed (take (Suc (Suc j)) (st # rest)) d"
      using e Inr by simp
    then show ?thesis by blast
  qed
qed

text \<open>
  C3, as the code has it. Initialization sends the statement that creates the table of
  learnings and, when that one fails, returns its error and sends nothing more. Otherwise
  it sends the full-text statements once, in their order, up to and including the first
  that fails, sends none after that one, and returns no error: when all four succeed the
  database is the one after the four, and when the statement of index \<open>k\<close> is the first to
  fail the database is the one after the statements up to it; one of the two is always
  the case. The backend keeps no record of how the attempt went. Every \<open>Search\<close>,
  whatever happened at initialization, first sends the full-text query; it sends the
  substring query exactly when the full-text query returned an error, and when the
  full-text query succeeds its rows are the result.
\<close>

theorem search_tries_full_text_first:
  "issued (snd (SQLite_Search query category n d)) =
     issued d
       @ SelectFts (Join (Fields query) '' OR '') (category_arg category) (if n \<le> 0 then 10 else n)
       # (case fst (Query (SelectFts (Join (Fields query) '' OR '') (category_arg category)
                             (if n \<le> 0 then 10 else n)) d) of
            Inl err \<Rightarrow>
              [SelectLike (map (\<lambda>w. ''%'' @ w @ ''%'') (Fields query)) (category_arg category)
                 (if n \<le> 0 then 10 else n)]
          | Inr rows \<Rightarrow> [])
   \<and> (fst (Query (SelectFts (Join (Fields query) '' OR '') (category_arg category)
                    (if n \<le> 0 then 10 else n)) d) = Inr rows \<longrightarrow>
        fst (SQLite_Search query category n d) = Inr (scanLearnings rows))
   \<and> (fst (Exec CreateLearnings d) = Inr res \<longrightarrow> fst (NewSQLiteBackend d) = None)
   \<and> (Exec CreateLearnings d = (Inl e, d1) \<longrightarrow>
        NewSQLiteBackend d = (Some e, d1) \<and> issued d1 = issued d @ [CreateLearnings])
   \<and> (Exec CreateLearnings d = (Inr res, d1) \<and> all_succeed ftsStatements d1 \<longrightarrow>
        NewSQLiteBackend d = (None, state_after ftsStatements d1)
        \<and> issued (snd (NewSQLiteBackend d)) = issued d @ CreateLearnings # ftsStatements)
   \<and> (Exec CreateLearnings d = (Inr res, d1) \<and> k < length ftsStatements
        \<and> all_succeed (take k ftsStatements) d1
        \<and> \<not> all_succeed (take (Suc k) ftsStatements) d1 \<longrightarrow>
        NewSQLiteBackend d = (None, state_after (take (Suc k) ftsStatements) d1)
        \<and> issued (snd (NewSQLiteBackend d))
            = issued d @ CreateLearnings # take (Suc k) ftsStatements)
   \<and> (all_succeed ftsStatements d1
        \<or> (\<exists>j < length ftsStatements.
             all_succeed (take j ftsStatements) d1
             \<and> \<not> all_succeed (take (Suc j) ftsStatements) d1))"
proof -
  let ?fts = "SelectFts (Join (Fields query) '' OR '') (category_arg category)
                (if n \<le> 0 then 10 else n)"
  let ?like = "SelectLike (map (\<lambda>w. ''%'' @ w @ ''%'') (Fields query)) (category_arg category)
                 (if n \<le> 0 then 10 else n)"
  obtain out da where q: "Query ?fts d = (out, da)" by (cases "Query ?fts d")
  have da: "issued da = issued d @ [?fts]"
    using issued_Query [of ?fts d] q by simp
  have unf: "SQLite_Search query category n d =
      (case out of
         Inr rows \<Rightarrow> (Inr (scanLearnings rows), da)
       | Inl err \<Rightarrow>
           (case Query ?like da of
              (Inl err2, d2) \<Rightarrow> (Inl err2, d2)
            | (Inr rows, d2) \<Rightarrow> (Inr (scanLearnings rows), d2)))"
    using q by (simp add: SQLite_Search_def Let_def)
  have 1: "issued (snd (SQLite_Search query category n d)) =
     issued d @ ?fts # (case fst (Query ?fts d) of Inl err \<Rightarrow> [?like] | Inr rows \<Rightarrow> [])"
  proof (cases out)
    case (Inr rows)
    then show ?thesis using unf q da by simp
  next
    case (Inl err)
    obtain out2 db where l: "Query ?like da = (out2, db)" by (cases "Query ?like da")
    have "issued db = issued da @ [?like]"
      using issued_Query [of ?like da] l by simp
    then show ?thesis
      using unf q da Inl l by (cases out2) simp_all
  qed
  have 2: "fst (Query ?fts d) = Inr rows \<longrightarrow>
        fst (SQLite_Search query category n d) = Inr (scanLearnings rows)"
    using unf q by auto
  have 3: "fst (Exec CreateLearnings d) = Inr res \<longrightarrow> fst (NewSQLiteBackend d) = None"
    by (auto simp: NewSQLiteBackend_def migrate_def split: prod.splits sum.splits)
  have 4: "Exec CreateLearnings d = (Inl e, d1) \<longrightarrow>
        NewSQLiteBackend d = (Some e, d1) \<and> issued d1 = issued d @ [CreateLearnings]"
  proof
    assume h: "Exec CreateLearnings d = (Inl e, d1)"
    have "issued d1 = issued d @ [CreateLearnings]"
      using issued_Exec [of CreateLearnings d] h by simp
    then show "NewSQLiteBackend d = (Some e, d1) \<and> issued d1 = issued d @ [CreateLearnings]"
      using h by (simp add: NewSQLiteBackend_def migrate_def)
  qed
  have 5: "Exec CreateLearnings d = (Inr res, d1) \<and> all_succeed ftsStatements d1 \<longrightarrow>
        NewSQLiteBackend d = (None, state_after ftsStatements d1)
        \<and> issued (snd (NewSQLiteBackend d)) = issued d @ CreateLearnings # ftsStatements"
  proof
    assume h: "Exec CreateLearnings d = (Inr res, d1) \<and> all_succeed ftsStatements d1"
    have i1: "issued d1 = issued d @ [CreateLearnings]"
      using issued_Exec [of CreateLearnings d] h by simp
    have n: "NewSQLiteBackend d = (None, state_after ftsStatements d1)"
      using h ftsLoop_all_succeed [of ftsStatements d1]
      by (simp add: NewSQLiteBackend_def migrate_def)
    show "NewSQLiteBackend d = (None, state_after ftsStatements d1)
        \<and> issued (snd (NewSQLiteBackend d)) = issued d @ CreateLearnings # ftsStatements"
      unfolding n by (simp add: issued_state_after i1)
  qed
  have 6: "Exec CreateLearnings d = (Inr res, d1) \<and> k < length ftsStatements
        \<and> all_succeed (take k ftsStatements) d1
        \<and> \<not> all_succeed (take (Suc k) ftsStatements) d1 \<longrightarrow>
        NewSQLiteBackend d = (None, state_after (take (Suc k) ftsStatements) d1)
        \<and> issued (snd (NewSQLiteBackend d))
            = issued d @ CreateLearnings # take (Suc k) ftsStatements"
  proof
    assume h: "Exec CreateLearnings d = (Inr res, d1) \<and> k < length ftsStatements
        \<and> all_succeed (take k ftsStatements) d1
        \<and> \<not> all_succeed (take (Suc k) ftsStatements) d1"
    have i1: "issued d1 = issued d @ [CreateLearnings]"
      using issued_Exec [of CreateLearnings d] h by simp
    have "ftsLoop ftsStatements d1 = state_after (take (Suc k) ftsStatements) d1"
      using h ftsLoop_first_failure by blast
    then have n: "NewSQLiteBackend d = (None, state_after (take (Suc k) ftsStatements) d1)"
      using h by (simp add: NewSQLiteBackend_def migrate_def)
    show "NewSQLiteBackend d = (None, state_after (take (Suc k) ftsStatements) d1)
        \<and> issued (snd (NewSQLiteBackend d))
            = issued d @ CreateLearnings # take (Suc k) ftsStatements"
      unfolding n by (simp add: issued_state_after i1)
  qed
  have 7: "all_succeed ftsStatements d1
        \<or> (\<exists>j < length ftsStatements.
             all_succeed (take j ftsStatements) d1
             \<and> \<not> all_succeed (take (Suc j) ftsStatements) d1)"
    using first_failure [of ftsStatements d1] by blast
  show ?thesis
    by (intro conjI) (rule 1, rule 2, rule 3, rule 4, rule 5, rule 6, rule 7)
qed

theorem search_tries_full_text_first_witness:
  "issued (snd (SQLite_Search ''vim'' ''technical'' 0 twoRowsDb))
     = issued twoRowsDb @ [SelectFts ''vim'' (Some ''technical'') 10,
                           SelectLike [''%vim%''] (Some ''technical'') 10]
   \<and> fst (SQLite_Search ''vim'' [] 0 halfInitDb) = Inr []
   \<and> fst (NewSQLiteBackend emptyDb) = None
   \<and> NewSQLiteBackend (emptyDb\<lparr>closed := True\<rparr>)
       = (Some ''sql: database is closed'', emptyDb\<lparr>closed := True, issued := [CreateLearnings]\<rparr>)
   \<and> fst (NewSQLiteBackend (emptyDb\<lparr>fts5 := Some sampleFts\<rparr>)) = None
   \<and> issued (snd (NewSQLiteBackend (emptyDb\<lparr>fts5 := Some sampleFts\<rparr>)))
       = [CreateLearnings, CreateFts, CreateTrigger ''learnings_ai'',
          CreateTrigger ''learnings_au'', CreateTrigger ''learnings_ad'']
   \<and> triggers (snd (NewSQLiteBackend (emptyDb\<lparr>fts5 := Some sampleFts\<rparr>)))
       = [''learnings_ai'', ''learnings_au'', ''learnings_ad'']
   \<and> issued (snd (NewSQLiteBackend emptyDb)) = [CreateLearnings, CreateFts]
   \<and> issued (snd (NewSQLiteBackend
                     (emptyDb\<lparr>fts5 := Some sampleFts, faults := [False, False, True]\<rparr>)))
       = [CreateLearnings, CreateFts, CreateTrigger ''learnings_ai'']
   \<and> triggers (snd (NewSQLiteBackend
                       (emptyDb\<lparr>fts5 := Some sampleFts, faults := [False, False, True]\<rparr>)))
       = []"
proof -
  note t = search_tries_full_text_first
  let ?c = "emptyDb\<lparr>closed := True\<rparr>"
  let ?g = "emptyDb\<lparr>fts5 := Some sampleFts\<rparr>"
  let ?h = "emptyDb\<lparr>fts5 := Some sampleFts, faults := [False, False, True]\<rparr>"
  let ?e1 = "emptyDb\<lparr>tbl := Some [], issued := [CreateLearnings]\<rparr>"
  let ?g1 = "emptyDb\<lparr>fts5 := Some sampleFts, tbl := Some [], issued := [CreateLearnings]\<rparr>"
  let ?h1 = "emptyDb\<lparr>fts5 := Some sampleFts, faults := [False, True], tbl := Some [],
                     issued := [CreateLearnings]\<rparr>"
  have q: "fst (Query (SelectFts (Join (Fields ''vim'') '' OR '') (category_arg [])
                    (if (0::int) \<le> 0 then 10 else 0)) halfInitDb) = Inr (delivered [])"
    by (simp add: category_arg_def halfInitDb_eq engine_defs text_defs sampleFts_def)
  have e: "fst (Exec CreateLearnings emptyDb) = Inr no_rows"
    by (simp add: emptyDb_def engine_defs)
  have f: "fst (Query (SelectFts (Join (Fields ''vim'') '' OR '') (category_arg ''technical'')
                    (if (0::int) \<le> 0 then 10 else 0)) twoRowsDb) = Inl ''no such table: learnings_fts''"
    by (simp add: category_arg_def twoRowsDb_eq engine_defs text_defs)
  have c: "Exec CreateLearnings ?c
             = (Inl ''sql: database is closed'', emptyDb\<lparr>closed := True, issued := [CreateLearnings]\<rparr>)"
    by (simp add: emptyDb_def engine_defs)
  have g: "Exec CreateLearnings ?g = (Inr no_rows, ?g1) \<and> all_succeed ftsStatements ?g1"
    by (simp add: emptyDb_def ftsStatements_def engine_defs)
  have e0: "Exec CreateLearnings emptyDb = (Inr no_rows, ?e1) \<and> 0 < length ftsStatements
             \<and> all_succeed (take 0 ftsStatements) ?e1
             \<and> \<not> all_succeed (take (Suc 0) ftsStatements) ?e1"
    by (simp add: emptyDb_def ftsStatements_def engine_defs)
  have h1: "Exec CreateLearnings ?h = (Inr no_rows, ?h1) \<and> 1 < length ftsStatements
             \<and> all_succeed (take 1 ftsStatements) ?h1
             \<and> \<not> all_succeed (take (Suc 1) ftsStatements) ?h1"
    by (simp add: emptyDb_def ftsStatements_def engine_defs)
  note t1 = t [of "''vim''" "''technical''" 0 twoRowsDb, THEN conjunct1]
  note t2 = t [of "''vim''" "[]" 0 halfInitDb "delivered []", THEN conjunct2, THEN conjunct1,
               THEN mp, OF q]
  note t3 = t [where d = emptyDb and res = no_rows, THEN conjunct2, THEN conjunct2,
               THEN conjunct1, THEN mp, OF e]
  note t4 = t [where d = ?c, THEN conjunct2, THEN conjunct2, THEN conjunct2, THEN conjunct1,
               THEN mp, OF c, THEN conjunct1]
  note t5 = t [where d = ?g and res = no_rows, THEN conjunct2, THEN conjunct2, THEN conjunct2,
               THEN conjunct2, THEN conjunct1, THEN mp, OF g]
  note t6 = t [where d = emptyDb and res = no_rows and k = 0, THEN conjunct2, THEN conjunct2,
               THEN conjunct2, THEN conjunct2, THEN conjunct2, THEN conjunct1, THEN mp, OF e0]
  note t7 = t [where d = ?h and res = no_rows and k = 1, THEN conjunct2, THEN conjunct2,
               THEN conjunct2, THEN conjunct2, THEN conjunct2, THEN conjunct1, THEN mp, OF h1]
  have s5: "triggers (state_after ftsStatements ?g1)
              = [''learnings_ai'', ''learnings_au'', ''learnings_ad'']"
    by (simp add: emptyDb_def ftsStatements_def engine_defs)
  have s7: "triggers (state_after (take (Suc 1) ftsStatements) ?h1) = []"
    by (simp add: emptyDb_def ftsStatements_def engine_defs)
  have i0: "issued emptyDb = []" "issued ?g = []" "issued ?h = []"
    by (simp_all add: emptyDb_def)
  have tk: "take (Suc 0) ftsStatements = [CreateFts]"
      "take (Suc 1) ftsStatements = [CreateFts, CreateTrigger ''learnings_ai'']"
      "CreateLearnings # ftsStatements
         = [CreateLearnings, CreateFts, CreateTrigger ''learnings_ai'',
            CreateTrigger ''learnings_au'', CreateTrigger ''learnings_ad'']"
    by (simp_all add: ftsStatements_def)
  have a: "issued (snd (SQLite_Search ''vim'' ''technical'' 0 twoRowsDb))
     = issued twoRowsDb @ [SelectFts ''vim'' (Some ''technical'') 10,
                           SelectLike [''%vim%''] (Some ''technical'') 10]"
    using t1 f by (simp add: category_arg_def text_defs)
  have b: "fst (SQLite_Search ''vim'' [] 0 halfInitDb) = Inr []"
    using t2 by (simp add: scanLearnings_def delivered_def)
  have g5: "fst (NewSQLiteBackend ?g) = None"
    using t5 [THEN conjunct1] by simp
  have g6: "issued (snd (NewSQLiteBackend ?g))
       = [CreateLearnings, CreateFts, CreateTrigger ''learnings_ai'',
          CreateTrigger ''learnings_au'', CreateTrigger ''learnings_ad'']"
    using t5 [THEN conjunct2] i0(2) tk(3) by simp
  have g7: "triggers (snd (NewSQLiteBackend ?g))
       = [''learnings_ai'', ''learnings_au'', ''learnings_ad'']"
    using t5 [THEN conjunct1] s5 by simp
  have e6: "issued (snd (NewSQLiteBackend emptyDb)) = [CreateLearnings, CreateFts]"
    using t6 [THEN conjunct2] i0(1) tk(1) by simp
  have h6: "issued (snd (NewSQLiteBackend ?h))
       = [CreateLearnings, CreateFts, CreateTrigger ''learnings_ai'']"
    using t7 [THEN conjunct2] i0(3) tk(2) by simp
  have h7: "triggers (snd (NewSQLiteBackend ?h)) = []"
    using t7 [THEN conjunct1] s7 by simp
  show ?thesis
    by (intro conjI) (rule a, rule b, rule t3, rule t4, rule g5, rule g6, rule g7, rule e6,
        rule h6, rule h7)
qed

text \<open>
  C3, as the claim has it, fails. On an engine without FTS5 the creation of the
  full-text table fails at initialization, and a later \<open>Search\<close> still sends the full-text
  query before the substring query. On an engine with FTS5 where the creation of the
  first trigger fails, initialization stops there, and a later \<open>Search\<close> sends the
  full-text query and nothing else: a learning added since is not in the index, and
  \<open>Search\<close> does not find it, though the substring query would.
\<close>

theorem search_probes_after_failed_initialization:
  "fst (NewSQLiteBackend emptyDb) = None
   \<and> freshDb = snd (NewSQLiteBackend emptyDb)
   \<and> issued freshDb = [CreateLearnings, CreateFts]
   \<and> learnings_fts freshDb = None
   \<and> issued (snd (SQLite_Search ''vim'' [] 0 freshDb))
       = [CreateLearnings, CreateFts, SelectFts ''vim'' None 10, SelectLike [''%vim%''] None 10]
   \<and> issued halfInitDb = [CreateLearnings, CreateFts, CreateTrigger ''learnings_ai'']
   \<and> triggers halfInitDb = []
   \<and> issued (snd (SQLite_Search ''vim'' [] 0 halfInitDb))
       = [CreateLearnings, CreateFts, CreateTrigger ''learnings_ai'', SelectFts ''vim'' None 10]
   \<and> fst (SQLite_Search ''vim'' [] 0 staleDb) = Inr []
   \<and> fst (Query (SelectLike [''%vim%''] None 10) staleDb)
       = Inr (delivered [new_row 1 ''technical'' ''uses vim'' ''editor'' 0.9 5 5])"
  apply (intro conjI)
           apply (simp add: NewSQLiteBackend_def migrate_def ftsStatements_def emptyDb_def
      engine_defs)
          apply (simp add: freshDb_def)
         apply (simp add: freshDb_eq)
        apply (simp add: freshDb_eq)
       apply (simp add: SQLite_Search_def category_arg_def freshDb_eq engine_defs text_defs Let_def)
      apply (simp add: halfInitDb_eq)
     apply (simp add: halfInitDb_eq)
    apply (simp add: SQLite_Search_def category_arg_def halfInitDb_eq engine_defs text_defs Let_def
      sampleFts_def)
   apply (simp add: SQLite_Search_def category_arg_def staleDb_eq engine_defs text_defs Let_def
      sampleFts_def scanLearnings_def)
  apply (simp add: staleDb_eq engine_defs text_defs)
  done

section \<open>Update\<close>

lemma only_record:
  assumes "rec_id c = i" and "i \<notin> set (map rec_id (before @ after))"
  shows "filter (\<lambda>x. ([i] = [] \<or> rec_id x \<in> set [i]) \<and> where_holds None x)
           (before @ [c] @ after) = [c]"
proof -
  have "filter (\<lambda>x. rec_id x = i) before = []" "filter (\<lambda>x. rec_id x = i) after = []"
    using assms(2) by (auto simp: filter_empty_conv)
  then show ?thesis using assms(1) by (simp add: where_holds_def)
qed

lemma getByID_found:
  assumes "records r = before @ [c] @ after" and "rec_id c = i"
    and "i \<notin> set (map rec_id (before @ after))" and "\<not> unreachable r"
  shows "getByID G b i r = (Inr (stored_learning G c), call r)"
proof -
  have u: "unreachable r = False" using assms(4) by simp
  have "post (GetReq [i] None 0 [''documents'', ''metadatas'']) r
          = (Inr (GetResp (get_response [c])), call r)"
    unfolding post_def Let_def
    by (simp only: u if_False creq.case assms(1) only_record [OF assms(2,3)]) simp
  then show ?thesis
    by (simp add: getByID_def decode_get_def get_of_hits)
qed

lemma map_others:
  "i \<notin> set (map rec_id xs) \<Longrightarrow> map (\<lambda>x. if rec_id x = i then f x else x) xs = xs"
  by (induction xs) auto

lemma updated_one:
  assumes "rec_id c = i" and "i \<notin> set (map rec_id (before @ after))"
  shows "updated [i] [doc] [m] (before @ [c] @ after)
           = before @ [c\<lparr>rec_document := doc, rec_meta := rec_meta c ++ wire_meta m\<rparr>] @ after"
  using assms by (simp add: map_others)

lemma Chroma_Update_found:
  assumes "records r = before @ [c] @ after" and "rec_id c = i"
    and "i \<notin> set (map rec_id (before @ after))" and "\<not> unreachable r" and "\<not> unreachable (call r)"
  shows "Chroma_Update G b now i content tags confidence r =
           (None,
            (call (call r))
              \<lparr>records :=
                 before @ [c\<lparr>rec_document := content,
                          rec_meta := rec_meta c ++
                            wire_meta (learning_meta (Category (stored_learning G c)) tags confidence
                                         (UseCount (stored_learning G c))
                                         (fmt_rfc3339 G (CreatedAt (stored_learning G c)))
                                         (fmt_rfc3339 G now))\<rparr>] @ after\<rparr>)"
proof -
  have rc: "records (call r) = before @ [c] @ after"
    using assms(1) by (simp add: call_def)
  show ?thesis
    using assms(5) rc updated_one [OF assms(2,3)]
    by (simp add: Chroma_Update_def getByID_found [OF assms(1-4)] post_def Let_def)
qed

lemma rewritten_view:
  fixes c :: crec and content tags cr up :: string and confidence :: real and uc :: int
    and cat :: string
  defines "c' \<equiv> c\<lparr>rec_document := content,
                    rec_meta := rec_meta c ++ wire_meta (learning_meta cat tags confidence uc cr up)\<rparr>"
  shows "Category (stored_learning G c') = cat"
    and "Learning.Content (stored_learning G c') = content"
    and "Tags (stored_learning G c') = tags"
    and "Confidence (stored_learning G c') = confidence"
    and "rec_meta c' ''updated_at'' = Some (JStr up)"
    and "rec_id c' = rec_id c"
  by (simp_all add: c'_def stored_learning_def meta_Category meta_UseCount meta_Content meta_Tags
      meta_Confidence read_meta_def wire_meta_def learning_meta_def asString_def asCount_def
      asFloat_def map_add_def)

lemma rewritten_use_count:
  assumes "- (2 ^ 63) \<le> uc" and "uc < 2 ^ 63"
  shows "UseCount (stored_learning G
           (c\<lparr>rec_document := content,
              rec_meta := rec_meta c ++ wire_meta (learning_meta cat tags confidence uc cr up)\<rparr>))
         = uc"
  using float_to_int_of_int [OF assms]
  by (simp add: stored_learning_def meta_UseCount read_meta_def wire_meta_def learning_meta_def
      asCount_def map_add_def)

lemma rewritten_updated_at:
  "(m ++ wire_meta (learning_meta cat tags confidence uc cr up)) ''updated_at'' = Some (JStr up)"
  by (simp add: wire_meta_def learning_meta_def map_add_def)

lemma SQLite_Update_rows:
  assumes "SQLite_Update now a content tags confidence d = (None, d1)" and "tbl d = Some rs"
  shows "tbl d1 =
           Some (map (\<lambda>r. if id_is a r
                           then r\<lparr>col_content := content, col_tags := tags,
                                  col_confidence := confidence, col_updated_at := now\<rparr>
                           else r) rs)"
  using assms
  by (auto simp: SQLite_Update_def Exec_def receive_def Let_def split: option.splits sum.splits)

lemma SQLite_Update_failed:
  assumes "SQLite_Update now a content tags confidence d = (Some err, d1)"
  shows "tbl d1 = tbl d"
  using assms
  by (auto simp: SQLite_Update_def Exec_def receive_def Let_def split: option.splits sum.splits)

lemma updated_rows_frame:
  "map col_category (map (\<lambda>r. if id_is a r
                           then r\<lparr>col_content := content, col_tags := tags,
                                  col_confidence := confidence, col_updated_at := now\<rparr>
                           else r) rs) = map col_category rs
   \<and> map col_use_count (map (\<lambda>r. if id_is a r
                           then r\<lparr>col_content := content, col_tags := tags,
                                  col_confidence := confidence, col_updated_at := now\<rparr>
                           else r) rs) = map col_use_count rs"
  by (induction rs) auto

text \<open>
  C2, as the code has it. On the structured store, an \<open>Update\<close> that succeeds rewrites the
  content, the tags, the confidence and \<open>updated_at\<close> of the rows with that id and leaves
  every category and use count as it was; one that fails leaves the table as it was. On the
  remote store, for a record that exists, when the internal fetch-by-id and the rewrite
  both go through, \<open>Update\<close> returns no error and the record then reads back with the new
  content, tags and confidence, the new \<open>updated_at\<close>, and the category and use count it
  had.
\<close>

theorem update_frame:
  "(SQLite_Update now a content tags confidence d = (None, d1) \<and> tbl d = Some rs \<longrightarrow>
      tbl d1 =
        Some (map (\<lambda>r. if id_is a r
                        then r\<lparr>col_content := content, col_tags := tags,
                               col_confidence := confidence, col_updated_at := now\<rparr>
                        else r) rs)
      \<and> map_option (map col_category) (tbl d1) = Some (map col_category rs)
      \<and> map_option (map col_use_count) (tbl d1) = Some (map col_use_count rs))
   \<and> (SQLite_Update now a content tags confidence d = (Some err, d1) \<longrightarrow> tbl d1 = tbl d)
   \<and> (records r = before @ [c] @ after \<and> rec_id c = i
        \<and> i \<notin> set (map rec_id (before @ after))
        \<and> \<not> unreachable r \<and> \<not> unreachable (call r) \<longrightarrow>
      fst (Chroma_Update G b now i content tags confidence r) = None
      \<and> (\<exists>c'. records (snd (Chroma_Update G b now i content tags confidence r))
                  = before @ [c'] @ after
              \<and> rec_id c' = i
              \<and> Category (stored_learning G c') = Category (stored_learning G c)
              \<and> UseCount (stored_learning G c') = UseCount (stored_learning G c)
              \<and> Learning.Content (stored_learning G c') = content
              \<and> Tags (stored_learning G c') = tags
              \<and> Confidence (stored_learning G c') = confidence
              \<and> rec_meta c' ''updated_at'' = Some (JStr (fmt_rfc3339 G now))))"
proof (intro conjI impI)
  assume h: "SQLite_Update now a content tags confidence d = (None, d1) \<and> tbl d = Some rs"
  then show t: "tbl d1 =
        Some (map (\<lambda>r. if id_is a r
                        then r\<lparr>col_content := content, col_tags := tags,
                               col_confidence := confidence, col_updated_at := now\<rparr>
                        else r) rs)"
    using SQLite_Update_rows by blast
  show "map_option (map col_category) (tbl d1) = Some (map col_category rs)"
    unfolding t by (simp add: updated_rows_frame)
  show "map_option (map col_use_count) (tbl d1) = Some (map col_use_count rs)"
    unfolding t by (simp add: updated_rows_frame)
next
  assume "SQLite_Update now a content tags confidence d = (Some err, d1)"
  then show "tbl d1 = tbl d" by (rule SQLite_Update_failed)
next
  assume h: "records r = before @ [c] @ after \<and> rec_id c = i
        \<and> i \<notin> set (map rec_id (before @ after))
        \<and> \<not> unreachable r \<and> \<not> unreachable (call r)"
  let ?c' = "c\<lparr>rec_document := content,
                rec_meta := rec_meta c ++
                  wire_meta (learning_meta (Category (stored_learning G c)) tags confidence
                               (UseCount (stored_learning G c))
                               (fmt_rfc3339 G (CreatedAt (stored_learning G c)))
                               (fmt_rfc3339 G now))\<rparr>"
  have u: "Chroma_Update G b now i content tags confidence r =
             (None, (call (call r))\<lparr>records := before @ [?c'] @ after\<rparr>)"
    using h Chroma_Update_found by blast
  show "fst (Chroma_Update G b now i content tags confidence r) = None"
    unfolding u by simp
  have "records (snd (Chroma_Update G b now i content tags confidence r)) = before @ [?c'] @ after"
    unfolding u by simp
  moreover have "rec_id ?c' = i" using h by simp
  ultimately show "\<exists>c'. records (snd (Chroma_Update G b now i content tags confidence r))
                  = before @ [c'] @ after
              \<and> rec_id c' = i
              \<and> Category (stored_learning G c') = Category (stored_learning G c)
              \<and> UseCount (stored_learning G c') = UseCount (stored_learning G c)
              \<and> Learning.Content (stored_learning G c') = content
              \<and> Tags (stored_learning G c') = tags
              \<and> Confidence (stored_learning G c') = confidence
              \<and> rec_meta c' ''updated_at'' = Some (JStr (fmt_rfc3339 G now))"
    by (intro exI [of _ ?c'])
      (simp add: rewritten_view rewritten_updated_at
         rewritten_use_count [OF stored_UseCount_range [THEN conjunct1]
                                 stored_UseCount_range [THEN conjunct2]])
qed

text \<open>
  C1, as the code has it. When the internal fetch-by-id of \<open>Update\<close> on the remote store
  fails or finds no record, \<open>Update\<close> does not return that failure: it sends the rewrite
  with category \<open>general\<close>, use count 0 and the current instant as \<open>created_at\<close>, and
  returns what the rewrite returns, which is no error when the rewrite goes through.
\<close>

theorem update_drops_fetch_failure:
  assumes "getByID G b i r = (Inl err, r1)"
  shows "Chroma_Update G b now i content tags confidence r =
           (case post (UpdateReq [i] [content]
                         [learning_meta ''general'' tags confidence 0 (fmt_rfc3339 G now)
                            (fmt_rfc3339 G now)]) r1 of
              (Inl e, r2) \<Rightarrow> (Some e, r2)
            | (Inr resp, r2) \<Rightarrow> (None, r2))
         \<and> (\<not> unreachable r1 \<longrightarrow>
              fst (Chroma_Update G b now i content tags confidence r) = None)"
  using assms
  by (auto simp: Chroma_Update_def Let_def post_def split: creq.splits)


theorem update_drops_fetch_failure_witness:
  "getByID sampleLib sampleChroma ''42'' emptyRemote = (Inl ''not found: 42'', emptyRemote)
   \<and> \<not> unreachable emptyRemote
   \<and> fst (Chroma_Update sampleLib sampleChroma 9 ''42'' ''uses emacs'' ''editor'' 0.5 emptyRemote)
       = None"
proof -
  have g: "getByID sampleLib sampleChroma ''42'' emptyRemote = (Inl ''not found: 42'', emptyRemote)"
    by (simp add: getByID_def chroma_eval)
  have u: "\<not> unreachable emptyRemote"
    by (simp add: unreachable_def emptyRemote_def)
  from update_drops_fetch_failure [OF g, THEN conjunct2, THEN mp, OF u] g u
  show ?thesis by blast
qed

text \<open>
  C1, as the claim has it, fails: on an empty collection the fetch-by-id finds no record,
  and \<open>Update\<close> returns no error; with a record in the collection and a fetch-by-id that
  fails, \<open>Update\<close> returns no error either.
\<close>

theorem update_succeeds_without_record:
  "fst (getByID sampleLib sampleChroma ''42'' emptyRemote) = Inl ''not found: 42''
   \<and> fst (Chroma_Update sampleLib sampleChroma 9 ''42'' ''uses emacs'' ''editor'' 0.5 emptyRemote)
       = None
   \<and> fst (getByID sampleLib sampleChroma ''7'' flakyRemote) = Inl ''chroma POST failed''
   \<and> fst (Chroma_Update sampleLib sampleChroma 9 ''7'' ''uses emacs'' ''editor'' 0.5 flakyRemote)
       = None"
  by (simp add: Chroma_Update_def getByID_def flakyRemote_def chroma_eval)

theorem update_frame_witness:
  "map_option (map col_category)
     (tbl (snd (SQLite_Update 9 ''1'' ''uses emacs'' ''editor'' 0.5 twoRowsDb)))
     = Some [''technical'', ''preferences'']
   \<and> map_option (map col_content)
     (tbl (snd (SQLite_Update 9 ''1'' ''uses emacs'' ''editor'' 0.5 twoRowsDb)))
     = Some [''uses emacs'', ''likes vim bindings'']
   \<and> fst (Chroma_Update sampleLib sampleChroma 9 ''7'' ''uses emacs'' ''editor'' 0.5 twoRecords)
     = None
   \<and> map (stored_learning sampleLib)
       (records (snd (Chroma_Update sampleLib sampleChroma 9 ''7'' ''uses emacs'' ''editor'' 0.5
                        twoRecords)))
     = [\<lparr>Learning.ID = ''7'', Category = ''technical'', Learning.Content = ''uses emacs'',
         Tags = ''editor'', Confidence = 0.5, UseCount = 3, CreatedAt = 5, UpdatedAt = 9\<rparr>,
        \<lparr>Learning.ID = ''8'', Category = ''preferences'',
         Learning.Content = ''likes vim bindings'', Tags = [], Confidence = 0.8, UseCount = 0,
         CreatedAt = 6, UpdatedAt = 6\<rparr>]"
proof -
  let ?su = "SQLite_Update 9 ''1'' ''uses emacs'' ''editor'' 0.5 twoRowsDb"
  let ?rs = "[new_row 1 ''technical'' ''uses vim'' ''editor'' 0.9 5 5,
              new_row 2 ''preferences'' ''likes vim bindings'' [] 0.8 6 6]"
  let ?cu = "Chroma_Update sampleLib sampleChroma 9 ''7'' ''uses emacs'' ''editor'' 0.5 twoRecords"
  have s: "?su = (None, snd ?su) \<and> tbl twoRowsDb = Some ?rs"
    by (simp add: SQLite_Update_def twoRowsDb_eq engine_defs prod_eq_iff)
  have c: "records twoRecords = [] @ [sampleRecord] @ [otherRecord] \<and> rec_id sampleRecord = ''7''
        \<and> ''7'' \<notin> set (map rec_id ([] @ [otherRecord]))
        \<and> \<not> unreachable twoRecords \<and> \<not> unreachable (call twoRecords)"
    by (simp add: twoRecords_def emptyRemote_def sampleRecord_def otherRecord_def unreachable_def
        call_def)
  note t = update_frame [of 9 "''1''" "''uses emacs''" "''editor''" "0.5" twoRowsDb "snd ?su" ?rs
                            _ twoRecords "[]" sampleRecord "[otherRecord]" "''7''" sampleLib
                            sampleChroma]
  have 1: "map_option (map col_category) (tbl (snd ?su)) = Some (map col_category ?rs)"
    using t s by blast
  have 2: "fst ?cu = None"
    using t c by blast
  have 3: "map_option (map col_content) (tbl (snd ?su)) = Some [''uses emacs'', ''likes vim bindings'']"
    by (simp add: SQLite_Update_def twoRowsDb_eq engine_defs text_to_int_def digit_val_def)
  have 4: "map (stored_learning sampleLib) (records (snd ?cu))
     = [\<lparr>Learning.ID = ''7'', Category = ''technical'', Learning.Content = ''uses emacs'',
         Tags = ''editor'', Confidence = 0.5, UseCount = 3, CreatedAt = 5, UpdatedAt = 9\<rparr>,
        \<lparr>Learning.ID = ''8'', Category = ''preferences'',
         Learning.Content = ''likes vim bindings'', Tags = [], Confidence = 0.8, UseCount = 0,
         CreatedAt = 6, UpdatedAt = 6\<rparr>]"
    by (simp add: Chroma_Update_def getByID_def twoRecords_def chroma_eval text_defs)
  show ?thesis
    using 1 2 3 4 by (simp add: new_row_def)
qed

text \<open>
  C2, as the claim has it, fails on the remote store: the record exists with category
  \<open>technical\<close> and use count 3, the fetch-by-id fails, the rewrite goes through, and the
  record then has category \<open>general\<close> and use count 0, while \<open>Update\<close> returns no error.
\<close>

theorem update_after_failed_fetch_resets_category:
  "map (stored_learning sampleLib) (records flakyRemote)
     = [\<lparr>Learning.ID = ''7'', Category = ''technical'', Learning.Content = ''uses vim'',
         Tags = ''editor'', Confidence = 0.9, UseCount = 3, CreatedAt = 5, UpdatedAt = 6\<rparr>]
   \<and> fst (Chroma_Update sampleLib sampleChroma 9 ''7'' ''uses emacs'' ''editor'' 0.5 flakyRemote)
     = None
   \<and> map (stored_learning sampleLib)
       (records (snd (Chroma_Update sampleLib sampleChroma 9 ''7'' ''uses emacs'' ''editor'' 0.5
                        flakyRemote)))
     = [\<lparr>Learning.ID = ''7'', Category = ''general'', Learning.Content = ''uses emacs'',
         Tags = ''editor'', Confidence = 0.5, UseCount = 0, CreatedAt = 9, UpdatedAt = 9\<rparr>]"
  by (simp add: Chroma_Update_def getByID_def flakyRemote_def chroma_eval text_defs)

end
